theory Spec2Isabelle
  imports Main "HOL-Library.AList" "HOL-Library.Char_ord" "HOL-Library.List_Lexorder"
begin

section \<open>Python values used by the two modules\<close>

text \<open>
  A Python \<open>str\<close> is a \<open>string\<close>; a \<open>dict\<close> with string keys is an association list
  with distinct keys, kept in insertion order; an exception is a value of \<open>error\<close>, and a
  function that can raise returns \<open>error + 'a\<close> with \<open>Inl\<close> for the exception.
\<close>

abbreviation nl :: char where "nl \<equiv> CHR 0x0A"

abbreviation sq :: char where "sq \<equiv> CHR 0x27"

datatype error =
    InvalidSettingName string
  | InvalidSyslogName string
  | ReservedSinkName
  | SinkNotDefined string
  | SinkTypeNotDefined string
  | SasUrlNotSpecified string
  | SinkTypeNotSupported string string
  | NeitherTableNorSinks string
  | KeyError string
  | TypeError
  | AttributeError
  | ValueError
  | IOError
  | XmlError

text \<open>\<open>s.split(sep)\<close> for a one-character separator: never the empty list.\<close>

fun str_split :: "char \<Rightarrow> string \<Rightarrow> string list" where
  "str_split sep [] = [[]]"
| "str_split sep (c # cs) =
     (if c = sep then [] # str_split sep cs
      else (case str_split sep cs of [] \<Rightarrow> [[c]] | w # ws \<Rightarrow> (c # w) # ws))"

text \<open>\<open>sep.join(xs)\<close>.\<close>

fun str_join :: "string \<Rightarrow> string list \<Rightarrow> string" where
  "str_join sep [] = []"
| "str_join sep [x] = x"
| "str_join sep (x # y # ys) = x @ sep @ str_join sep (y # ys)"

text \<open>\<open>s.replace(old, new)\<close> for one-character \<open>old\<close> and \<open>new\<close>.\<close>

definition str_replace :: "char \<Rightarrow> char \<Rightarrow> string \<Rightarrow> string" where
  "str_replace old new s = map (\<lambda>c. if c = old then new else c) s"

text \<open>
  \<open>dict(pairs)\<close>: the pairs are stored one after the other, a later pair replacing the
  value of a key already present (\<open>AList.update\<close> keeps the key's first position).
  Python 2 does not specify the order in which a dict lists its keys; the model lists them
  in insertion order, and the properties proved below do not depend on that order.
\<close>

definition dict_of_pairs :: "(string \<times> string) list \<Rightarrow> (string \<times> string) list" where
  "dict_of_pairs ps = foldl (\<lambda>d kv. AList.update (fst kv) (snd kv) d) [] ps"

section \<open>Diagnostic/Utils/lad\_logging\_config.py\<close>

subsection \<open>The mdsd XML templates\<close>

definition mdsd_sources_events_config_template :: "string \<Rightarrow> string \<Rightarrow> string \<Rightarrow> string" where
  \<open>mdsd_sources_events_config_template sources events eh_urls =
     [nl] @ ''<MonitoringManagement eventVersion="2" namespace="" timestamp="2014-12-01T20:00:00.000" version="1.0">'' @ [nl]
     @ ''  <Sources>'' @ [nl]
     @ sources @ ''  </Sources>'' @ [nl]
     @ [nl]
     @ ''  <Events>'' @ [nl]
     @ ''    <MdsdEvents>'' @ [nl]
     @ events @ ''    </MdsdEvents>'' @ [nl]
     @ ''  </Events>'' @ [nl]
     @ [nl]
     @ ''  <EventStreamingAnnotations>'' @ [nl]
     @ eh_urls @ ''  </EventStreamingAnnotations>'' @ [nl]
     @ ''</MonitoringManagement>'' @ [nl]\<close>

definition mdsd_per_source_config_template :: "string \<Rightarrow> string" where
  \<open>mdsd_per_source_config_template name =
     ''    <Source name="'' @ name @ ''" dynamic_schema="true" />'' @ [nl]\<close>

definition mdsd_per_event_source_config_template :: "string \<Rightarrow> string \<Rightarrow> string" where
  \<open>mdsd_per_event_source_config_template source routeevents =
     ''      <MdsdEventSource source="'' @ source @ ''">'' @ [nl]
     @ ''        '' @ routeevents @ [nl]
     @ ''      </MdsdEventSource>'' @ [nl]\<close>

definition mdsd_per_routeevent_config_template :: "string \<Rightarrow> string \<Rightarrow> string" where
  \<open>mdsd_per_routeevent_config_template event_name opt_store_type =
     ''    <RouteEvent dontUsePerNDayTable="true" eventName="'' @ event_name
     @ ''" priority="High" '' @ opt_store_type @ '' />'' @ [nl]\<close>

definition mdsd_per_eh_url_template :: "string \<Rightarrow> string \<Rightarrow> string" where
  \<open>mdsd_per_eh_url_template eh_name eh_url =
     ''    <EventStreamingAnnotation name="'' @ eh_name @ ''">'' @ [nl]
     @ ''       <EventPublisher>'' @ [nl]
     @ ''         <Content/>'' @ [nl]
     @ ''         <Key><![CDATA['' @ eh_url @ '']]></Key>'' @ [nl]
     @ ''       </EventPublisher>'' @ [nl]
     @ ''    </EventStreamingAnnotation>'' @ [nl]\<close>

subsection \<open>The settings and the class\<close>

text \<open>
  The \<open>syslogEvents\<close> JSON object: each of its two keys may be missing. The object with
  neither key is the empty dict, which Python takes as false. The class reads no other key.
\<close>

record syslog_events =
  sinks :: "string option"
  syslogEventConfiguration :: "(string \<times> string) list option"

text \<open>An entry of \<open>fileLogConfiguration\<close>, and a sink of \<open>sinksConfig\<close>: dicts of strings.\<close>

type_synonym file_log_entry = "(string \<times> string) list"

type_synonym sink = "(string \<times> string) list"

text \<open>
  \<open>LadUtil.SinkConfiguration\<close> is used through \<open>get_sink_by_name\<close> only, which gives the
  sink's dict or \<open>None\<close>; the object is that function.
\<close>

type_synonym sink_configuration = "string \<Rightarrow> sink option"

record LadLoggingConfig =
  syslogEvents :: "syslog_events option"
  fileLogs :: "file_log_entry list option"
  sinksConfig :: sink_configuration
  fac_sev_map :: "(string \<times> string) list option"
  syslog_disabled :: bool
  file_table_map :: "(string \<times> string) list option"
  file_sinks_map :: "(string \<times> string) list option"
  oms_rsyslog_config :: "string option"
  oms_syslog_ng_config :: "string option"
  oms_mdsd_syslog_config :: "string option"
  oms_mdsd_filelog_config :: "string option"

text \<open>\<open>if self._syslogEvents\<close>: \<open>None\<close> and the empty dict are false.\<close>

definition syslogEvents_truthy :: "syslog_events option \<Rightarrow> bool" where
  "syslogEvents_truthy se =
     (case se of None \<Rightarrow> False
      | Some r \<Rightarrow> sinks r \<noteq> None \<or> syslogEventConfiguration r \<noteq> None)"

text \<open>\<open>if self._fileLogs\<close>: \<open>None\<close> and the empty list are false.\<close>

definition fileLogs_truthy :: "file_log_entry list option \<Rightarrow> bool" where
  "fileLogs_truthy fl = (case fl of None \<Rightarrow> False | Some es \<Rightarrow> es \<noteq> [])"

text \<open>
  The list comprehension \<open>[(entry['file'], entry[key] if key in entry else '') for entry in
  self._fileLogs]\<close>; a missing \<open>'file'\<close> is the \<open>KeyError\<close> that the constructor turns
  into its own exception.
\<close>

fun file_log_pairs :: "string \<Rightarrow> file_log_entry list \<Rightarrow> error + (string \<times> string) list" where
  "file_log_pairs key [] = Inr []"
| "file_log_pairs key (entry # rest) =
     (case map_of entry ''file'' of
        None \<Rightarrow> Inl (InvalidSettingName ''file'')
      | Some f \<Rightarrow>
          (case file_log_pairs key rest of
             Inl e \<Rightarrow> Inl e
           | Inr ps \<Rightarrow> Inr ((f, case map_of entry key of None \<Rightarrow> [] | Some v \<Rightarrow> v) # ps)))"

definition LadLoggingConfig_init ::
  "syslog_events option \<Rightarrow> file_log_entry list option \<Rightarrow> sink_configuration
     \<Rightarrow> error + LadLoggingConfig" where
  "LadLoggingConfig_init se fl sc =
     (case (if syslogEvents_truthy se
            then (case se of
                    None \<Rightarrow> Inr None
                  | Some r \<Rightarrow>
                      (case syslogEventConfiguration r of
                         None \<Rightarrow> Inl (InvalidSettingName ''syslogEventConfiguration'')
                       | Some m \<Rightarrow> Inr (Some m)))
            else Inr None) of
        Inl e \<Rightarrow> Inl e
      | Inr fsm \<Rightarrow>
          (case (if fileLogs_truthy fl
                 then (case file_log_pairs ''table'' (case fl of None \<Rightarrow> [] | Some es \<Rightarrow> es) of
                         Inl e \<Rightarrow> Inl e
                       | Inr tps \<Rightarrow>
                           (case file_log_pairs ''sinks'' (case fl of None \<Rightarrow> [] | Some es \<Rightarrow> es) of
                              Inl e \<Rightarrow> Inl e
                            | Inr sps \<Rightarrow> Inr (Some (dict_of_pairs tps), Some (dict_of_pairs sps))))
                 else Inr (None, None)) of
             Inl e \<Rightarrow> Inl e
           | Inr maps \<Rightarrow>
               Inr \<lparr> syslogEvents = se, fileLogs = fl, sinksConfig = sc,
                     fac_sev_map = fsm,
                     syslog_disabled = (case fsm of None \<Rightarrow> True | Some m \<Rightarrow> m = []),
                     file_table_map = fst maps, file_sinks_map = snd maps,
                     oms_rsyslog_config = None, oms_syslog_ng_config = None,
                     oms_mdsd_syslog_config = None, oms_mdsd_filelog_config = None \<rparr>))"

subsection \<open>The name table\<close>

definition syslog_name_to_rsyslog_name_map :: "(string \<times> string) list" where
  "syslog_name_to_rsyslog_name_map =
     [(''LOG_AUTH'', ''auth''),
      (''LOG_AUTHPRIV'', ''authpriv''),
      (''LOG_CRON'', ''cron''),
      (''LOG_DAEMON'', ''daemon''),
      (''LOG_FTP'', ''ftp''),
      (''LOG_KERN'', ''kern''),
      (''LOG_LOCAL0'', ''local0''),
      (''LOG_LOCAL1'', ''local1''),
      (''LOG_LOCAL2'', ''local2''),
      (''LOG_LOCAL3'', ''local3''),
      (''LOG_LOCAL4'', ''local4''),
      (''LOG_LOCAL5'', ''local5''),
      (''LOG_LOCAL6'', ''local6''),
      (''LOG_LOCAL7'', ''local7''),
      (''LOG_LPR'', ''lpr''),
      (''LOG_MAIL'', ''mail''),
      (''LOG_NEWS'', ''news''),
      (''LOG_SYSLOG'', ''syslog''),
      (''LOG_USER'', ''user''),
      (''LOG_UUCP'', ''uucp''),
      (''LOG_EMERG'', ''emerg''),
      (''LOG_ALERT'', ''alert''),
      (''LOG_CRIT'', ''crit''),
      (''LOG_ERR'', ''err''),
      (''LOG_WARNING'', ''warning''),
      (''LOG_NOTICE'', ''notice''),
      (''LOG_INFO'', ''info''),
      (''LOG_DEBUG'', ''debug'')]"

definition syslog_name_to_rsyslog_name :: "string \<Rightarrow> error + string" where
  "syslog_name_to_rsyslog_name syslog_name =
     (case map_of syslog_name_to_rsyslog_name_map syslog_name of
        None \<Rightarrow> Inl (InvalidSyslogName syslog_name)
      | Some v \<Rightarrow> Inr v)"

subsection \<open>The rsyslog and syslog-ng fragments\<close>

text \<open>
  The generator expression of \<open>get_oms_rsyslog_config\<close>, one line per item of the
  facility-severity dict; the first name outside the table raises.
\<close>

fun rsyslog_lines :: "(string \<times> string) list \<Rightarrow> error + string list" where
  "rsyslog_lines [] = Inr []"
| "rsyslog_lines (fs # rest) =
     (case syslog_name_to_rsyslog_name (fst fs) of
        Inl e \<Rightarrow> Inl e
      | Inr f \<Rightarrow>
          (case syslog_name_to_rsyslog_name (snd fs) of
             Inl e \<Rightarrow> Inl e
           | Inr s \<Rightarrow>
               (case rsyslog_lines rest of
                  Inl e \<Rightarrow> Inl e
                | Inr ls \<Rightarrow> Inr ((f @ ''.'' @ s @ ''  @127.0.0.1:%SYSLOG_PORT%'') # ls))))"

definition get_oms_rsyslog_config :: "LadLoggingConfig \<Rightarrow> (error + string) \<times> LadLoggingConfig" where
  "get_oms_rsyslog_config self =
     (let computed =
            (if syslog_disabled self
             then (Inr [], self\<lparr>oms_rsyslog_config := Some []\<rparr>)
             else (case fac_sev_map self of
                     None \<Rightarrow> (Inl AttributeError, self)
                   | Some m \<Rightarrow>
                       (case rsyslog_lines m of
                          Inl e \<Rightarrow> (Inl e, self)
                        | Inr ls \<Rightarrow>
                            (Inr (str_join [nl] ls @ [nl]),
                             self\<lparr>oms_rsyslog_config := Some (str_join [nl] ls @ [nl])\<rparr>))))
      in case oms_rsyslog_config self of
           None \<Rightarrow> computed
         | Some s \<Rightarrow> if s = [] then computed else (Inr s, self))"

text \<open>
  \<open>get_syslog_ng_src_name\<close> of \<open>Utils.omsagent_util\<close> reads the machine's syslog-ng
  configuration; its result is the parameter \<open>src_name\<close>.
\<close>

fun syslog_ng_lines :: "string \<Rightarrow> (string \<times> string) list \<Rightarrow> error + string list" where
  "syslog_ng_lines src_name [] = Inr []"
| "syslog_ng_lines src_name (fs # rest) =
     (case syslog_name_to_rsyslog_name (fst fs) of
        Inl e \<Rightarrow> Inl e
      | Inr f \<Rightarrow>
          (case syslog_name_to_rsyslog_name (snd fs) of
             Inl e \<Rightarrow> Inl e
           | Inr s \<Rightarrow>
               (case syslog_ng_lines src_name rest of
                  Inl e \<Rightarrow> Inl e
                | Inr ls \<Rightarrow>
                    Inr ((''log { source('' @ src_name @ ''); filter(f_LAD_oms_f_'' @ f
                          @ ''); filter(f_LAD_oms_ml_'' @ s
                          @ ''); destination(d_LAD_oms); };'') # ls))))"

definition get_oms_syslog_ng_config ::
  "string \<Rightarrow> LadLoggingConfig \<Rightarrow> (error + string) \<times> LadLoggingConfig" where
  "get_oms_syslog_ng_config src_name self =
     (let computed =
            (if syslog_disabled self
             then (Inr [], self\<lparr>oms_syslog_ng_config := Some []\<rparr>)
             else (case fac_sev_map self of
                     None \<Rightarrow> (Inl AttributeError, self)
                   | Some m \<Rightarrow>
                       (case syslog_ng_lines src_name m of
                          Inl e \<Rightarrow> (Inl e, self)
                        | Inr ls \<Rightarrow>
                            (Inr (str_join [nl] ls @ [nl]),
                             self\<lparr>oms_syslog_ng_config := Some (str_join [nl] ls @ [nl])\<rparr>))))
      in case oms_syslog_ng_config self of
           None \<Rightarrow> computed
         | Some s \<Rightarrow> if s = [] then computed else (Inr s, self))"

subsection \<open>The mdsd configuration for syslog and for file logs\<close>

definition generate_routeevent_and_eh_url_for_extra_sink ::
  "sink_configuration \<Rightarrow> string \<Rightarrow> error + string \<times> string" where
  \<open>generate_routeevent_and_eh_url_for_extra_sink sc sink_name =
     (case sc sink_name of
        None \<Rightarrow> Inl (SinkNotDefined sink_name)
      | Some sink \<Rightarrow>
          if sink = [] then Inl (SinkNotDefined sink_name)
          else (case map_of sink ''type'' of
                  None \<Rightarrow> Inl (KeyError ''type'')
                | Some sink_type \<Rightarrow>
                    if sink_type = [] then Inl (SinkTypeNotDefined sink_name)
                    else if sink_type = ''JsonBlob''
                    then Inr (mdsd_per_routeevent_config_template sink_name ''storeType="JsonBlob"'', [])
                    else if sink_type = ''EventHub''
                    then (case map_of sink ''sasURL'' of
                            None \<Rightarrow> Inl (SasUrlNotSpecified sink_name)
                          | Some url \<Rightarrow>
                              Inr (mdsd_per_routeevent_config_template sink_name ''storeType="local"'',
                                   mdsd_per_eh_url_template sink_name url))
                    else Inl (SinkTypeNotSupported sink_type sink_name)))\<close>

text \<open>
  The loop over \<open>self._syslogEvents['sinks'].split(',')\<close>, with the route events and the
  EventHub annotations collected so far.
\<close>

fun syslog_sinks_loop ::
  "sink_configuration \<Rightarrow> string list \<Rightarrow> string \<Rightarrow> string \<Rightarrow> error + string \<times> string" where
  "syslog_sinks_loop sc [] syslog_routeevents syslog_eh_urls =
     Inr (syslog_routeevents, syslog_eh_urls)"
| "syslog_sinks_loop sc (sink_name # rest) syslog_routeevents syslog_eh_urls =
     (if sink_name = ''LinuxSyslog'' then Inl ReservedSinkName
      else (case generate_routeevent_and_eh_url_for_extra_sink sc sink_name of
              Inl e \<Rightarrow> Inl e
            | Inr r \<Rightarrow>
                syslog_sinks_loop sc rest (syslog_routeevents @ fst r) (syslog_eh_urls @ snd r)))"

definition generate_oms_mdsd_syslog_config :: "LadLoggingConfig \<Rightarrow> error + string" where
  "generate_oms_mdsd_syslog_config self =
     (if syslog_disabled self then Inr []
      else (case (case syslogEvents self of
                    None \<Rightarrow> Inl TypeError
                  | Some r \<Rightarrow>
                      (case sinks r of
                         None \<Rightarrow> Inr (mdsd_per_routeevent_config_template ''LinuxSyslog'' [], [])
                       | Some s \<Rightarrow>
                           syslog_sinks_loop (sinksConfig self) (str_split CHR '','' s)
                             (mdsd_per_routeevent_config_template ''LinuxSyslog'' []) [])) of
              Inl e \<Rightarrow> Inl e
            | Inr r \<Rightarrow>
                Inr (mdsd_sources_events_config_template
                       (mdsd_per_source_config_template ''mdsd.syslog'')
                       (mdsd_per_event_source_config_template ''mdsd.syslog'' (fst r))
                       (snd r))))"

definition get_oms_mdsd_syslog_config :: "LadLoggingConfig \<Rightarrow> (error + string) \<times> LadLoggingConfig" where
  "get_oms_mdsd_syslog_config self =
     (let computed =
            (case generate_oms_mdsd_syslog_config self of
               Inl e \<Rightarrow> (Inl e, self)
             | Inr s \<Rightarrow> (Inr s, self\<lparr>oms_mdsd_syslog_config := Some s\<rparr>))
      in case oms_mdsd_syslog_config self of
           None \<Rightarrow> computed
         | Some s \<Rightarrow> if s = [] then computed else (Inr s, self))"

text \<open>
  The inner loop of the file-log generator over \<open>self._file_sinks_map[file_key].split(',')\<close>:
  no name is reserved here.
\<close>

fun filelog_sinks_loop ::
  "sink_configuration \<Rightarrow> string list \<Rightarrow> string \<Rightarrow> string \<Rightarrow> error + string \<times> string" where
  "filelog_sinks_loop sc [] per_file_routeevents filelogs_eh_urls =
     Inr (per_file_routeevents, filelogs_eh_urls)"
| "filelog_sinks_loop sc (sink_name # rest) per_file_routeevents filelogs_eh_urls =
     (case generate_routeevent_and_eh_url_for_extra_sink sc sink_name of
        Inl e \<Rightarrow> Inl e
      | Inr r \<Rightarrow>
          filelog_sinks_loop sc rest (per_file_routeevents @ fst r) (filelogs_eh_urls @ snd r))"

text \<open>
  The per-file source name: \<open>'mdsd.filelog{0}'.format(file_key.replace('/', '.'))\<close>.
\<close>

definition filelog_source_name :: "string \<Rightarrow> string" where
  "filelog_source_name file_key = ''mdsd.filelog'' @ str_replace CHR ''/'' CHR ''.'' file_key"

text \<open>
  The loop \<open>for file_key in sorted(self._file_table_map)\<close>, with the three strings built
  so far. A lookup of a key that a dict lacks is Python's \<open>KeyError\<close>.
\<close>

fun filelog_files_loop ::
  "sink_configuration \<Rightarrow> (string \<times> string) list \<Rightarrow> (string \<times> string) list \<Rightarrow> string list
     \<Rightarrow> string \<Rightarrow> string \<Rightarrow> string \<Rightarrow> error + string \<times> string \<times> string" where
  "filelog_files_loop sc tm sm [] filelogs_sources filelogs_mdsd_event_sources filelogs_eh_urls =
     Inr (filelogs_sources, filelogs_mdsd_event_sources, filelogs_eh_urls)"
| "filelog_files_loop sc tm sm (file_key # rest) filelogs_sources filelogs_mdsd_event_sources
       filelogs_eh_urls =
     (case map_of tm file_key of
        None \<Rightarrow> Inl (KeyError file_key)
      | Some table \<Rightarrow>
          (case map_of sm file_key of
             None \<Rightarrow> Inl (KeyError file_key)
           | Some file_sinks \<Rightarrow>
               if table = [] \<and> file_sinks = [] then Inl (NeitherTableNorSinks file_key)
               else (case (if file_sinks \<noteq> []
                           then filelog_sinks_loop sc (str_split CHR '','' file_sinks)
                                  (if table \<noteq> [] then mdsd_per_routeevent_config_template table []
                                   else [])
                                  filelogs_eh_urls
                           else Inr (if table \<noteq> [] then mdsd_per_routeevent_config_template table []
                                     else [],
                                     filelogs_eh_urls)) of
                       Inl e \<Rightarrow> Inl e
                     | Inr r \<Rightarrow>
                         filelog_files_loop sc tm sm rest
                           (filelogs_sources
                              @ mdsd_per_source_config_template
                                  (filelog_source_name file_key))
                           (filelogs_mdsd_event_sources
                              @ mdsd_per_event_source_config_template
                                  (filelog_source_name file_key) (fst r))
                           (snd r))))"

definition generate_oms_mdsd_filelog_config :: "LadLoggingConfig \<Rightarrow> error + string" where
  "generate_oms_mdsd_filelog_config self =
     (if \<not> fileLogs_truthy (fileLogs self) then Inr []
      else (case file_table_map self of
              None \<Rightarrow> Inl AttributeError
            | Some tm \<Rightarrow>
                (case file_sinks_map self of
                   None \<Rightarrow> Inl AttributeError
                 | Some sm \<Rightarrow>
                     (case filelog_files_loop (sinksConfig self) tm sm (sort (map fst tm)) [] [] [] of
                        Inl e \<Rightarrow> Inl e
                      | Inr r \<Rightarrow>
                          Inr (mdsd_sources_events_config_template (fst r) (fst (snd r))
                                 (snd (snd r)))))))"

definition get_oms_mdsd_filelog_config :: "LadLoggingConfig \<Rightarrow> (error + string) \<times> LadLoggingConfig" where
  "get_oms_mdsd_filelog_config self =
     (let computed =
            (case generate_oms_mdsd_filelog_config self of
               Inl e \<Rightarrow> (Inl e, self)
             | Inr s \<Rightarrow> (Inr s, self\<lparr>oms_mdsd_filelog_config := Some s\<rparr>))
      in case oms_mdsd_filelog_config self of
           None \<Rightarrow> computed
         | Some s \<Rightarrow> if s = [] then computed else (Inr s, self))"

subsection \<open>The fluentd source configurations\<close>

definition fluentd_syslog_src_config :: string where
  \<open>fluentd_syslog_src_config =
     [nl] @ ''<source>'' @ [nl]
     @ ''  type syslog'' @ [nl]
     @ ''  port %SYSLOG_PORT%'' @ [nl]
     @ ''  bind 127.0.0.1'' @ [nl]
     @ ''  protocol_type udp'' @ [nl]
     @ ''  tag mdsd.syslog'' @ [nl]
     @ ''</source>'' @ [nl]
     @ [nl]
     @ ''# Generate fields expected for existing mdsd syslog collection schema.'' @ [nl]
     @ ''<filter mdsd.syslog.**>'' @ [nl]
     @ ''  type record_transformer'' @ [nl]
     @ ''  enable_ruby'' @ [nl]
     @ ''  <record>'' @ [nl]
     @ ''    # Fields expected by mdsd for syslog messages'' @ [nl]
     @ ''    Ignore "syslog"'' @ [nl]
     @ ''    Facility ${tag_parts[2]}'' @ [nl]
     @ ''    Severity ${tag_parts[3]}'' @ [nl]
     @ ''    EventTime ${time.strftime('' @ [sq] @ ''%Y-%m-%dT%H:%M:%S%z'' @ [sq] @ '')}'' @ [nl]
     @ ''    SendingHost ${record["source_host"]}'' @ [nl]
     @ ''    Msg ${record["message"]}'' @ [nl]
     @ ''  </record>'' @ [nl]
     @ ''  remove_keys host,ident,pid,message,source_host  # No need of these fields for mdsd so remove'' @ [nl]
     @ ''</filter>'' @ [nl]\<close>

definition get_oms_fluentd_syslog_src_config :: "LadLoggingConfig \<Rightarrow> string" where
  "get_oms_fluentd_syslog_src_config self =
     (if syslog_disabled self then [] else fluentd_syslog_src_config)"



subsection \<open>Copying sub-elements between XML trees\<close>

text \<open>
  An \<open>xml.etree\<close> element: its tag, its attributes and its sub-elements. An element inside
  a tree is addressed by the child indices that lead to it from the root.
\<close>

datatype element = Element (tag: string) (attrib: "(string \<times> string) list") (subelems: "element list")

fun elem_at :: "element \<Rightarrow> nat list \<Rightarrow> element option" where
  "elem_at e [] = Some e"
| "elem_at e (i # p) =
     (if i < length (subelems e) then elem_at (subelems e ! i) p else None)"

text \<open>\<open>elem.append(x)\<close> for the element at position \<open>p\<close> of the tree.\<close>

fun append_at :: "element \<Rightarrow> nat list \<Rightarrow> element \<Rightarrow> element" where
  "append_at e [] x = Element (tag e) (attrib e) (subelems e @ [x])"
| "append_at e (i # p) x =
     (if i < length (subelems e)
      then Element (tag e) (attrib e) ((subelems e)[i := append_at (subelems e ! i) p x])
      else e)"

text \<open>
  \<open>ElementTree.find\<close> for a path of plain tag names separated by \<open>/\<close>: the position of
  the first element, in document order, that the path reaches from the root. The other
  path forms of the library (\<open>.\<close>, \<open>..\<close>, \<open>*\<close>, \<open>//\<close>, predicates) are not modelled;
  \<open>copy_sub_elems\<close> below takes the search as a parameter, so what is proved of it holds
  for every search.
\<close>

fun first_match :: "('a \<Rightarrow> 'b option) \<Rightarrow> 'a list \<Rightarrow> nat \<Rightarrow> (nat \<times> 'b) option" where
  "first_match f [] i = None"
| "first_match f (x # xs) i =
     (case f x of None \<Rightarrow> first_match f xs (Suc i) | Some y \<Rightarrow> Some (i, y))"

fun find_steps :: "string list \<Rightarrow> element \<Rightarrow> nat list option" where
  "find_steps [] e = Some []"
| "find_steps (s # ss) e =
     (case first_match (\<lambda>c. if tag c = s then find_steps ss c else None) (subelems e) 0 of
        None \<Rightarrow> None
      | Some ip \<Rightarrow> Some (fst ip # snd ip))"

definition et_find :: "element \<Rightarrow> string \<Rightarrow> nat list option" where
  "et_find root path = find_steps (str_split CHR ''/'' path) root"

text \<open>
  The loop \<open>for sub_elem in src_elem: dst_elem.append(sub_elem)\<close>; \<open>dst_elem\<close> is \<open>None\<close>
  when the path is not in the destination, and \<open>None.append\<close> raises.
\<close>

fun append_all :: "element \<Rightarrow> nat list option \<Rightarrow> element list \<Rightarrow> error + element" where
  "append_all dst_xml dst_elem [] = Inr dst_xml"
| "append_all dst_xml None (sub_elem # rest) = Inl AttributeError"
| "append_all dst_xml (Some p) (sub_elem # rest) =
     append_all (append_at dst_xml p sub_elem) (Some p) rest"

text \<open>
  \<open>copy_sub_elems\<close>, for two separate trees; \<open>find_path\<close> is the library's search, which gives
  the position of the element that the path reaches, if any.
\<close>

definition copy_sub_elems ::
  "(element \<Rightarrow> string \<Rightarrow> nat list option) \<Rightarrow> element \<Rightarrow> element \<Rightarrow> string \<Rightarrow> error + element" where
  "copy_sub_elems find_path dst_xml src_xml path =
     (case find_path src_xml path of
        None \<Rightarrow> Inr dst_xml
      | Some sp \<Rightarrow>
          append_all dst_xml (find_path dst_xml path)
            (case elem_at src_xml sp of None \<Rightarrow> [] | Some src_elem \<Rightarrow> subelems src_elem))"

section \<open>VMBackup/main/MachineIdentity.py\<close>

text \<open>
  The file system is a map from paths to contents. A file object knows its path and its
  mode and whether it was closed; \<open>open(path, 'w')\<close> creates the file or empties it.
\<close>

type_synonym filesystem = "string \<rightharpoonup> string"

datatype file_mode = ReadMode | WriteMode

record file_object =
  file_path :: string
  file_mode :: file_mode
  closed :: bool

record MachineIdentity =
  store_identity_file :: string
  self_file :: "file_object option"

definition MachineIdentity_init :: MachineIdentity where
  "MachineIdentity_init =
     \<lparr> store_identity_file = ''./machine_identity_FD76C85E-406F-4CFA-8EB0-CF18B123365C'',
       self_file = None \<rparr>"

definition hosting_environment_config :: string where
  "hosting_environment_config = ''/var/lib/waagent/HostingEnvironmentConfig.xml''"

text \<open>The \<open>finally\<close> block of the three methods: close \<open>self.file\<close> when it is open.\<close>

definition close_file :: "MachineIdentity \<Rightarrow> MachineIdentity" where
  "close_file self =
     (case self_file self of
        None \<Rightarrow> self
      | Some f \<Rightarrow> if \<not> closed f then self\<lparr>self_file := Some (f\<lparr>closed := True\<rparr>)\<rparr> else self)"

text \<open>
  \<open>current_identity\<close>. The parameter \<open>role_guid\<close> stands for the library calls on the
  text read: \<open>parseString\<close>, \<open>getElementsByTagName("Role")\<close>, the first element's
  \<open>getAttribute("guid")\<close>, any of which may raise.
\<close>

definition current_identity ::
  "(string \<Rightarrow> error + string) \<Rightarrow> MachineIdentity \<Rightarrow> filesystem
     \<Rightarrow> (error + string option) \<times> MachineIdentity" where
  "current_identity role_guid self fs =
     (case fs hosting_environment_config of
        None \<Rightarrow> (Inr None, close_file (self\<lparr>self_file := None\<rparr>))
      | Some xmlText \<Rightarrow>
          (case role_guid xmlText of
             Inl e \<Rightarrow>
               (Inl e,
                close_file (self\<lparr>self_file := Some \<lparr>file_path = hosting_environment_config,
                                                file_mode = ReadMode, closed = False\<rparr>\<rparr>))
           | Inr identity \<Rightarrow>
               (Inr (Some identity),
                close_file (self\<lparr>self_file := Some \<lparr>file_path = hosting_environment_config,
                                                file_mode = ReadMode, closed = False\<rparr>\<rparr>))))"

text \<open>\<open>f.write(data)\<close>: refused on a closed file and on a file opened for reading.\<close>

definition file_write :: "file_object option \<Rightarrow> string \<Rightarrow> filesystem \<Rightarrow> error + filesystem" where
  "file_write fo data fs =
     (case fo of
        None \<Rightarrow> Inl AttributeError
      | Some f \<Rightarrow>
          if closed f then Inl ValueError
          else if file_mode f \<noteq> WriteMode then Inl IOError
          else Inr (fs(file_path f \<mapsto> (case fs (file_path f) of None \<Rightarrow> [] | Some c \<Rightarrow> c) @ data)))"

text \<open>
  \<open>save_identity\<close>: the store file is opened for writing first, then \<open>current_identity\<close>
  runs on the same object and leaves its own file in \<open>self.file\<close>.
\<close>

definition save_identity ::
  "(string \<Rightarrow> error + string) \<Rightarrow> MachineIdentity \<Rightarrow> filesystem
     \<Rightarrow> (error + unit) \<times> MachineIdentity \<times> filesystem" where
  "save_identity role_guid self fs =
     (let fs1 = fs(store_identity_file self \<mapsto> []);
          self1 = self\<lparr>self_file := Some \<lparr>file_path = store_identity_file self,
                                       file_mode = WriteMode, closed = False\<rparr>\<rparr>;
          r = current_identity role_guid self1 fs1
      in case fst r of
           Inl e \<Rightarrow> (Inl e, close_file (snd r), fs1)
         | Inr None \<Rightarrow> (Inr (), close_file (snd r), fs1)
         | Inr (Some machine_identity) \<Rightarrow>
             (case file_write (self_file (snd r)) machine_identity fs1 of
                Inl e \<Rightarrow> (Inl e, close_file (snd r), fs1)
              | Inr fs2 \<Rightarrow> (Inr (), close_file (snd r), fs2)))"

definition stored_identity :: "MachineIdentity \<Rightarrow> filesystem \<Rightarrow> string option \<times> MachineIdentity" where
  "stored_identity self fs =
     (case fs (store_identity_file self) of
        None \<Rightarrow> (None, close_file (self\<lparr>self_file := None\<rparr>))
      | Some identity_stored \<Rightarrow>
          (Some identity_stored,
           close_file (self\<lparr>self_file := Some \<lparr>file_path = store_identity_file self,
                                           file_mode = ReadMode, closed = False\<rparr>\<rparr>)))"

section \<open>Sample settings\<close>

text \<open>
  A sinks configuration with a JsonBlob sink, a JsonBlob sink that is named like the default
  syslog table, and an EventHub sink that has no \<open>sasURL\<close>.
\<close>

definition sample_sinks :: sink_configuration where
  "sample_sinks =
     map_of [(''MySink'', [(''type'', ''JsonBlob'')]),
             (''LinuxSyslog'', [(''type'', ''JsonBlob'')]),
             (''MyHub'', [(''type'', ''EventHub'')])]"

section \<open>Properties of the logging configuration generator\<close>

subsection \<open>Facts about the constructor\<close>

lemma init_disabled:
  assumes "LadLoggingConfig_init se fl sc = Inr self"
    and "case se of None \<Rightarrow> True
         | Some r \<Rightarrow> (case syslogEventConfiguration r of None \<Rightarrow> True | Some m \<Rightarrow> m = [])"
  shows "syslog_disabled self"
  using assms
  by (auto simp: LadLoggingConfig_init_def syslogEvents_truthy_def
           split: option.splits if_splits sum.splits)

lemma init_caches:
  assumes "LadLoggingConfig_init se fl sc = Inr self"
  shows "oms_rsyslog_config self = None \<and> oms_syslog_ng_config self = None
         \<and> oms_mdsd_syslog_config self = None \<and> oms_mdsd_filelog_config self = None"
  using assms
  by (auto simp: LadLoggingConfig_init_def split: option.splits if_splits sum.splits)

subsection \<open>Facts about the sample settings and the sink loops\<close>

lemma sample_sinks_simps:
  "sample_sinks ''MySink'' = Some [(''type'', ''JsonBlob'')]"
  "sample_sinks ''LinuxSyslog'' = Some [(''type'', ''JsonBlob'')]"
  "sample_sinks ''MyHub'' = Some [(''type'', ''EventHub'')]"
  by (simp_all add: sample_sinks_def)

lemma sample_sinks_routes:
  \<open>generate_routeevent_and_eh_url_for_extra_sink sample_sinks ''MySink''
     = Inr (mdsd_per_routeevent_config_template ''MySink'' ''storeType="JsonBlob"'', [])\<close>
  \<open>generate_routeevent_and_eh_url_for_extra_sink sample_sinks ''LinuxSyslog''
     = Inr (mdsd_per_routeevent_config_template ''LinuxSyslog'' ''storeType="JsonBlob"'', [])\<close>
  \<open>generate_routeevent_and_eh_url_for_extra_sink sample_sinks ''MyHub''
     = Inl (SasUrlNotSpecified ''MyHub'')\<close>
  by (simp_all add: generate_routeevent_and_eh_url_for_extra_sink_def sample_sinks_simps)

lemma syslog_sinks_loop_fails:
  "n \<in> set names \<Longrightarrow> n = ''LinuxSyslog'' \<or> isl (generate_routeevent_and_eh_url_for_extra_sink sc n)
     \<Longrightarrow> isl (syslog_sinks_loop sc names re eh)"
  by (induction names arbitrary: re eh) (auto split: sum.splits)

lemma syslog_sinks_loop_first_failure:
  assumes "n \<in> set names"
    and "\<forall>k \<in> set (takeWhile (\<lambda>k. k \<noteq> n) names).
           k \<noteq> ''LinuxSyslog'' \<and> \<not> isl (generate_routeevent_and_eh_url_for_extra_sink sc k)"
    and "n = ''LinuxSyslog'' \<or> generate_routeevent_and_eh_url_for_extra_sink sc n = Inl e"
  shows "syslog_sinks_loop sc names re eh
           = (if n = ''LinuxSyslog'' then Inl ReservedSinkName else Inl e)"
  using assms(1,2)
proof (induction names arbitrary: re eh)
  case Nil
  then show ?case by simp
next
  case (Cons k ks)
  show ?case
  proof (cases "k = n")
    case True
    with assms(3) show ?thesis by (cases "n = ''LinuxSyslog''") simp_all
  next
    case False
    with Cons.prems have n: "n \<in> set ks" by simp
    from False Cons.prems(2) have k: "k \<noteq> ''LinuxSyslog''"
      "\<not> isl (generate_routeevent_and_eh_url_for_extra_sink sc k)" by simp_all
    from False Cons.prems(2) have rest: "\<forall>k \<in> set (takeWhile (\<lambda>k. k \<noteq> n) ks).
           k \<noteq> ''LinuxSyslog'' \<and> \<not> isl (generate_routeevent_and_eh_url_for_extra_sink sc k)"
      by simp
    from k(2) obtain r where r: "generate_routeevent_and_eh_url_for_extra_sink sc k = Inr r"
      by (cases "generate_routeevent_and_eh_url_for_extra_sink sc k") simp_all
    have "syslog_sinks_loop sc (k # ks) re eh = syslog_sinks_loop sc ks (re @ fst r) (eh @ snd r)"
      using k(1) r by simp
    with Cons.IH [OF n rest] show ?thesis by simp
  qed
qed

lemma init_enabled:
  assumes "LadLoggingConfig_init (Some r) fl sc = Inr self"
    and "syslogEventConfiguration r = Some m" and "m \<noteq> []"
  shows "\<not> syslog_disabled self \<and> syslogEvents self = Some r \<and> sinksConfig self = sc"
  using assms
  by (auto simp: LadLoggingConfig_init_def syslogEvents_truthy_def
           split: option.splits if_splits sum.splits)

lemma get_oms_mdsd_syslog_config_raises:
  assumes "\<not> syslog_disabled self" and "syslogEvents self = Some r" and "sinks r = Some s"
    and "oms_mdsd_syslog_config self = None"
    and "syslog_sinks_loop (sinksConfig self) (str_split CHR '','' s)
           (mdsd_per_routeevent_config_template ''LinuxSyslog'' []) [] = Inl e"
  shows "get_oms_mdsd_syslog_config self = (Inl e, self)"
  using assms by (simp add: get_oms_mdsd_syslog_config_def generate_oms_mdsd_syslog_config_def)

lemma sample_filelog_init:
  "LadLoggingConfig_init None
            (Some [[(''file'', ''/var/log/a''), (''sinks'', ''LinuxSyslog'')]]) sample_sinks
   = Inr \<lparr> syslogEvents = None,
           fileLogs = Some [[(''file'', ''/var/log/a''), (''sinks'', ''LinuxSyslog'')]],
           sinksConfig = sample_sinks,
           fac_sev_map = None, syslog_disabled = True,
           file_table_map = Some [(''/var/log/a'', [])],
           file_sinks_map = Some [(''/var/log/a'', ''LinuxSyslog'')],
           oms_rsyslog_config = None, oms_syslog_ng_config = None,
           oms_mdsd_syslog_config = None, oms_mdsd_filelog_config = None \<rparr>"
  by (simp add: LadLoggingConfig_init_def syslogEvents_truthy_def fileLogs_truthy_def
        dict_of_pairs_def)

lemma sample_source_name: "filelog_source_name ''/var/log/a'' = ''mdsd.filelog.var.log.a''"
  by (simp add: filelog_source_name_def str_replace_def)

lemma sample_split: "str_split CHR '','' ''LinuxSyslog'' = [''LinuxSyslog'']"
  by simp


lemma sample_filelog_sinks_loop:
  \<open>filelog_sinks_loop sample_sinks [''LinuxSyslog''] [] []
   = Inr (mdsd_per_routeevent_config_template ''LinuxSyslog'' ''storeType="JsonBlob"'', [])\<close>
  by (simp add: sample_sinks_routes)

lemma sample_filelog_loop:
  \<open>filelog_files_loop sample_sinks
      [(''/var/log/a'', [])] [(''/var/log/a'', ''LinuxSyslog'')] [''/var/log/a''] [] [] []
   = Inr (mdsd_per_source_config_template ''mdsd.filelog.var.log.a'',
          mdsd_per_event_source_config_template ''mdsd.filelog.var.log.a''
            (mdsd_per_routeevent_config_template ''LinuxSyslog'' ''storeType="JsonBlob"''),
          [])\<close>
  by (simp add: sample_split sample_filelog_sinks_loop sample_source_name
           del: str_split.simps filelog_sinks_loop.simps)

subsection \<open>Facts about the dicts of the file logs and the file loop\<close>

lemma filelog_sinks_loop_fails:
  "n \<in> set names \<Longrightarrow> isl (generate_routeevent_and_eh_url_for_extra_sink sc n)
     \<Longrightarrow> isl (filelog_sinks_loop sc names re eh)"
  by (induction names arbitrary: re eh) (auto split: sum.splits)

lemma filelog_files_loop_fails:
  assumes "f \<in> set keys" and "map_of sm f = Some s" and "s \<noteq> []"
    and "\<And>re eh. isl (filelog_sinks_loop sc (str_split CHR '','' s) re eh)"
  shows "isl (filelog_files_loop sc tm sm keys a b c)"
  using assms(1)
proof (induction keys arbitrary: a b c)
  case Nil
  then show ?case by simp
next
  case (Cons k ks)
  show ?case
  proof (cases "k = f")
    case True
    show ?thesis
    proof (cases "map_of tm f")
      case None
      with True show ?thesis by simp
    next
      case (Some t)
      from assms(4) [of "if t \<noteq> [] then mdsd_per_routeevent_config_template t [] else []" c]
      obtain e where "filelog_sinks_loop sc (str_split CHR '','' s)
          (if t \<noteq> [] then mdsd_per_routeevent_config_template t [] else []) c = Inl e"
        by (cases "filelog_sinks_loop sc (str_split CHR '','' s)
          (if t \<noteq> [] then mdsd_per_routeevent_config_template t [] else []) c") simp_all
      with True Some assms(2,3) show ?thesis by simp
    qed
  next
    case False
    with Cons.prems have "f \<in> set ks" by simp
    from Cons.IH [OF this] have ih: "\<And>a b c. isl (filelog_files_loop sc tm sm ks a b c)" .
    show ?thesis
      by (simp add: ih split: option.splits sum.splits)
  qed
qed

lemma dict_of_pairs_keys_aux:
  "fst ` set (foldl (\<lambda>d kv. AList.update (fst kv) (snd kv) d) d ps) = fst ` set d \<union> fst ` set ps"
  by (induction ps arbitrary: d) (auto simp: dom_update)

lemma dict_of_pairs_keys: "fst ` set (dict_of_pairs ps) = fst ` set ps"
  by (simp add: dict_of_pairs_def dict_of_pairs_keys_aux)





lemma file_log_pairs_keys:
  "file_log_pairs key es = Inr ps \<Longrightarrow> map fst ps = map (\<lambda>e. the (map_of e ''file'')) es"
  by (induction es arbitrary: ps) (auto split: option.splits sum.splits)


lemma init_file_maps:
  assumes "LadLoggingConfig_init se fl sc = Inr self" and "file_sinks_map self = Some sm"
  shows "\<exists>es tps sps. fl = Some es \<and> es \<noteq> []
           \<and> file_log_pairs ''table'' es = Inr tps \<and> file_log_pairs ''sinks'' es = Inr sps
           \<and> file_table_map self = Some (dict_of_pairs tps) \<and> sm = dict_of_pairs sps
           \<and> fileLogs self = fl \<and> sinksConfig self = sc"
  using assms
  by (auto simp: LadLoggingConfig_init_def fileLogs_truthy_def
           split: option.splits if_splits sum.splits)

lemma get_oms_mdsd_filelog_config_raises:
  assumes "fileLogs_truthy (fileLogs self)" and "file_table_map self = Some tm"
    and "file_sinks_map self = Some sm" and "oms_mdsd_filelog_config self = None"
    and "filelog_files_loop (sinksConfig self) tm sm (sort (map fst tm)) [] [] [] = Inl e"
  shows "get_oms_mdsd_filelog_config self = (Inl e, self)"
  using assms
  by (simp add: get_oms_mdsd_filelog_config_def generate_oms_mdsd_filelog_config_def)

lemma filelog_raises_on_failing_sink:
  assumes i: "LadLoggingConfig_init se fl sc = Inr self"
    and sm: "file_sinks_map self = Some sm" and f: "map_of sm f = Some s" and s: "s \<noteq> []"
    and n: "n \<in> set (str_split CHR '','' s)"
    and bad: "isl (generate_routeevent_and_eh_url_for_extra_sink sc n)"
  shows "\<exists>e. get_oms_mdsd_filelog_config self = (Inl e, self)"
proof -
  from init_file_maps [OF i sm] obtain es tps sps where m:
    "fl = Some es" "es \<noteq> []"
    "file_log_pairs ''table'' es = Inr tps" "file_log_pairs ''sinks'' es = Inr sps"
    "file_table_map self = Some (dict_of_pairs tps)" "sm = dict_of_pairs sps"
    "fileLogs self = fl" "sinksConfig self = sc"
    by blast
  have t: "fileLogs_truthy (fileLogs self)" using m(1,2,7) by (simp add: fileLogs_truthy_def)
  have c: "oms_mdsd_filelog_config self = None" using init_caches [OF i] by simp
  have "map fst tps = map fst sps"
    using file_log_pairs_keys [OF m(3)] file_log_pairs_keys [OF m(4)] by simp
  then have "fst ` set tps = fst ` set sps" by (metis set_map)
  moreover from f have "f \<in> fst ` set sm" by (metis map_of_eq_None_iff option.distinct(1))
  ultimately have "f \<in> fst ` set (dict_of_pairs tps)"
    using m(6) by (simp add: dict_of_pairs_keys)
  then have k: "f \<in> set (sort (map fst (dict_of_pairs tps)))" by simp
  have l: "isl (filelog_sinks_loop sc (str_split CHR '','' s) re eh)" for re eh
    using n bad by (rule filelog_sinks_loop_fails)
  have "isl (filelog_files_loop sc (dict_of_pairs tps) sm (sort (map fst (dict_of_pairs tps))) [] [] [])"
    using k f s l by (rule filelog_files_loop_fails)
  then obtain e where
    "filelog_files_loop sc (dict_of_pairs tps) sm (sort (map fst (dict_of_pairs tps))) [] [] [] = Inl e"
    by (cases "filelog_files_loop sc (dict_of_pairs tps) sm (sort (map fst (dict_of_pairs tps))) [] [] []")
       simp_all
  then have "get_oms_mdsd_filelog_config self = (Inl e, self)"
    using t m(5) sm c unfolding m(8) [symmetric] by (intro get_oms_mdsd_filelog_config_raises)
  then show ?thesis ..
qed

lemma syslog_raises_on_failing_sink:
  assumes i: "LadLoggingConfig_init (Some r) fl sc = Inr self"
    and m: "syslogEventConfiguration r = Some m" "m \<noteq> []"
    and s: "sinks r = Some s" and n: "n \<in> set (str_split CHR '','' s)"
    and bad: "generate_routeevent_and_eh_url_for_extra_sink sc n = Inl e"
  shows "\<exists>e'. get_oms_mdsd_syslog_config self = (Inl e', self)
           \<and> (n \<noteq> ''LinuxSyslog''
                \<and> (\<forall>k \<in> set (takeWhile (\<lambda>k. k \<noteq> n) (str_split CHR '','' s)).
                      k \<noteq> ''LinuxSyslog'' \<and> \<not> isl (generate_routeevent_and_eh_url_for_extra_sink sc k))
                \<longrightarrow> e' = e)"
proof -
  let ?names = "str_split CHR '','' s"
  let ?re = "mdsd_per_routeevent_config_template ''LinuxSyslog'' []"
  have en: "\<not> syslog_disabled self" "syslogEvents self = Some r" "sinksConfig self = sc"
    using init_enabled [OF i m] by simp_all
  have c: "oms_mdsd_syslog_config self = None" using init_caches [OF i] by simp
  have "isl (syslog_sinks_loop sc ?names ?re [])"
    using n by (rule syslog_sinks_loop_fails) (simp add: bad)
  then obtain e' where e': "syslog_sinks_loop sc ?names ?re [] = Inl e'"
    by (cases "syslog_sinks_loop sc ?names ?re []") simp_all
  have g: "get_oms_mdsd_syslog_config self = (Inl e', self)"
    using en(1,2) s c e' [folded en(3)] by (rule get_oms_mdsd_syslog_config_raises)
  have "e' = e" if a: "n \<noteq> ''LinuxSyslog''"
    and b: "\<forall>k \<in> set (takeWhile (\<lambda>k. k \<noteq> n) ?names).
              k \<noteq> ''LinuxSyslog'' \<and> \<not> isl (generate_routeevent_and_eh_url_for_extra_sink sc k)"
    using syslog_sinks_loop_first_failure [OF n b, of e ?re "[]"] bad a e' by simp
  with g show ?thesis by blast
qed

lemma sample_filelog_hub_init:
  "LadLoggingConfig_init None
            (Some [[(''file'', ''/var/log/a''), (''table'', ''T''), (''sinks'', ''MyHub'')]])
            sample_sinks
   = Inr \<lparr> syslogEvents = None,
           fileLogs = Some [[(''file'', ''/var/log/a''), (''table'', ''T''), (''sinks'', ''MyHub'')]],
           sinksConfig = sample_sinks,
           fac_sev_map = None, syslog_disabled = True,
           file_table_map = Some [(''/var/log/a'', ''T'')],
           file_sinks_map = Some [(''/var/log/a'', ''MyHub'')],
           oms_rsyslog_config = None, oms_syslog_ng_config = None,
           oms_mdsd_syslog_config = None, oms_mdsd_filelog_config = None \<rparr>"
  by (simp add: LadLoggingConfig_init_def syslogEvents_truthy_def fileLogs_truthy_def
        dict_of_pairs_def)

subsection \<open>Facts about file-log entries with the same file\<close>













subsection \<open>What the sink loops and the file loop compute\<close>

lemma find_first:
  "n \<in> set names \<Longrightarrow> P n \<Longrightarrow> \<forall>k \<in> set (takeWhile (\<lambda>k. k \<noteq> n) names). \<not> P k
     \<Longrightarrow> List.find P names = Some n"
  by (induction names) auto

lemma filelog_sinks_loop_find:
  "filelog_sinks_loop sc names re eh =
     (case List.find (\<lambda>k. isl (generate_routeevent_and_eh_url_for_extra_sink sc k)) names of
        None \<Rightarrow>
          Inr (re @ concat (map (\<lambda>k. fst (projr (generate_routeevent_and_eh_url_for_extra_sink sc k))) names),
               eh @ concat (map (\<lambda>k. snd (projr (generate_routeevent_and_eh_url_for_extra_sink sc k))) names))
      | Some k \<Rightarrow> Inl (projl (generate_routeevent_and_eh_url_for_extra_sink sc k)))"
proof (induction names arbitrary: re eh)
  case Nil
  show ?case by simp
next
  case (Cons k ks)
  show ?case
  proof (cases "generate_routeevent_and_eh_url_for_extra_sink sc k")
    case (Inl e)
    then show ?thesis by simp
  next
    case (Inr r)
    then show ?thesis by (simp add: Cons split: option.splits)
  qed
qed

lemma syslog_sinks_loop_find:
  "syslog_sinks_loop sc names re eh =
     (case List.find (\<lambda>k. k = ''LinuxSyslog''
                          \<or> isl (generate_routeevent_and_eh_url_for_extra_sink sc k)) names of
        None \<Rightarrow>
          Inr (re @ concat (map (\<lambda>k. fst (projr (generate_routeevent_and_eh_url_for_extra_sink sc k))) names),
               eh @ concat (map (\<lambda>k. snd (projr (generate_routeevent_and_eh_url_for_extra_sink sc k))) names))
      | Some k \<Rightarrow>
          if k = ''LinuxSyslog'' then Inl ReservedSinkName
          else Inl (projl (generate_routeevent_and_eh_url_for_extra_sink sc k)))"
proof (induction names arbitrary: re eh)
  case Nil
  show ?case by simp
next
  case (Cons k ks)
  show ?case
  proof (cases "k = ''LinuxSyslog''")
    case True
    then show ?thesis by simp
  next
    case False
    show ?thesis
    proof (cases "generate_routeevent_and_eh_url_for_extra_sink sc k")
      case (Inl e)
      with False show ?thesis by simp
    next
      case (Inr r)
      with False show ?thesis by (simp add: Cons split: option.splits)
    qed
  qed
qed

lemma sink_helper_not_reserved:
  "generate_routeevent_and_eh_url_for_extra_sink sc n \<noteq> Inl ReservedSinkName"
  by (simp add: generate_routeevent_and_eh_url_for_extra_sink_def split: option.splits)

lemma filelog_sinks_loop_not_reserved:
  "filelog_sinks_loop sc names re eh \<noteq> Inl ReservedSinkName"
proof (induction names arbitrary: re eh)
  case Nil
  show ?case by simp
next
  case (Cons k ks)
  show ?case
  proof (cases "generate_routeevent_and_eh_url_for_extra_sink sc k")
    case (Inl e)
    with sink_helper_not_reserved [of sc k] show ?thesis by simp
  next
    case (Inr r)
    with Cons show ?thesis by simp
  qed
qed

lemma filelog_sinks_loop_error_not_reserved:
  "filelog_sinks_loop sc names re eh = Inl e \<Longrightarrow> e \<noteq> ReservedSinkName"
  using filelog_sinks_loop_not_reserved [of sc names re eh] by auto

lemma filelog_files_loop_not_reserved:
  "filelog_files_loop sc tm sm keys a b c \<noteq> Inl ReservedSinkName"
proof (induction keys arbitrary: a b c)
  case Nil
  show ?case by simp
next
  case (Cons k ks)
  show ?case
    by (auto simp: Cons split: option.splits sum.splits if_splits
             dest: filelog_sinks_loop_error_not_reserved)
qed

lemma get_oms_mdsd_filelog_config_not_reserved:
  "fst (get_oms_mdsd_filelog_config self) \<noteq> Inl ReservedSinkName"
  by (auto simp: get_oms_mdsd_filelog_config_def generate_oms_mdsd_filelog_config_def Let_def
                 filelog_files_loop_not_reserved
           split: option.splits sum.splits if_splits)

lemma filelog_sinks_loop_all_resolve:
  assumes "\<forall>x \<in> set names. \<not> isl (generate_routeevent_and_eh_url_for_extra_sink sc x)"
  shows "filelog_sinks_loop sc names re eh =
          Inr (re @ concat (map (\<lambda>k. fst (projr (generate_routeevent_and_eh_url_for_extra_sink sc k))) names),
               eh @ concat (map (\<lambda>k. snd (projr (generate_routeevent_and_eh_url_for_extra_sink sc k))) names))"
proof -
  from assms have "List.find (\<lambda>k. isl (generate_routeevent_and_eh_url_for_extra_sink sc k)) names = None"
    by (simp add: find_None_iff)
  then show ?thesis by (simp add: filelog_sinks_loop_find)
qed


lemma filelog_files_loop_first_failure:
  assumes "f \<in> set keys"
    and "\<forall>k \<in> set (takeWhile (\<lambda>k. k \<noteq> f) keys).
           \<exists>t s. map_of tm k = Some t \<and> map_of sm k = Some s \<and> (t \<noteq> [] \<or> s \<noteq> [])
                 \<and> (\<forall>x \<in> set (if s = [] then [] else str_split CHR '','' s).
                       \<not> isl (generate_routeevent_and_eh_url_for_extra_sink sc x))"
    and f: "map_of tm f = Some t" "map_of sm f = Some s" "s \<noteq> []"
    and bad: "\<And>re eh. filelog_sinks_loop sc (str_split CHR '','' s) re eh = Inl e"
  shows "filelog_files_loop sc tm sm keys a b c = Inl e"
  using assms(1,2)
proof (induction keys arbitrary: a b c)
  case Nil
  then show ?case by simp
next
  case (Cons k ks)
  show ?case
  proof (cases "k = f")
    case True
    with f bad show ?thesis by simp
  next
    case False
    with Cons.prems have in_ks: "f \<in> set ks" by simp
    from False Cons.prems(2) obtain tk sk where k:
      "map_of tm k = Some tk" "map_of sm k = Some sk" "tk \<noteq> [] \<or> sk \<noteq> []"
      "\<forall>x \<in> set (if sk = [] then [] else str_split CHR '','' sk).
          \<not> isl (generate_routeevent_and_eh_url_for_extra_sink sc x)"
      by auto
    from False Cons.prems(2) have rest: "\<forall>k \<in> set (takeWhile (\<lambda>k. k \<noteq> f) ks).
           \<exists>t s. map_of tm k = Some t \<and> map_of sm k = Some s \<and> (t \<noteq> [] \<or> s \<noteq> [])
                 \<and> (\<forall>x \<in> set (if s = [] then [] else str_split CHR '','' s).
                       \<not> isl (generate_routeevent_and_eh_url_for_extra_sink sc x))"
      by simp
    note ih = Cons.IH [OF in_ks rest]
    show ?thesis
    proof (cases "sk = []")
      case True
      with k ih show ?thesis by simp
    next
      case sk: False
      with k(4) have "\<forall>x \<in> set (str_split CHR '','' sk).
          \<not> isl (generate_routeevent_and_eh_url_for_extra_sink sc x)" by simp
      note filelog_sinks_loop_all_resolve [OF this]
      with k sk ih show ?thesis by simp
    qed
  qed
qed


lemma filelog_raises_first_failure:
  assumes i: "LadLoggingConfig_init se fl sc = Inr self"
    and tm: "file_table_map self = Some tm"
    and sm: "file_sinks_map self = Some sm" and f: "map_of sm f = Some s" and s: "s \<noteq> []"
    and n: "n \<in> set (str_split CHR '','' s)"
    and bad: "generate_routeevent_and_eh_url_for_extra_sink sc n = Inl e"
    and before: "\<forall>k \<in> set (takeWhile (\<lambda>k. k \<noteq> n) (str_split CHR '','' s)).
                   \<not> isl (generate_routeevent_and_eh_url_for_extra_sink sc k)"
    and files: "\<forall>k \<in> set (takeWhile (\<lambda>k. k \<noteq> f) (sort (map fst tm))).
           \<exists>t s. map_of tm k = Some t \<and> map_of sm k = Some s \<and> (t \<noteq> [] \<or> s \<noteq> [])
                 \<and> (\<forall>x \<in> set (if s = [] then [] else str_split CHR '','' s).
                       \<not> isl (generate_routeevent_and_eh_url_for_extra_sink sc x))"
  shows "get_oms_mdsd_filelog_config self = (Inl e, self)"
proof -
  from init_file_maps [OF i sm] obtain es tps sps where m:
    "fl = Some es" "es \<noteq> []"
    "file_log_pairs ''table'' es = Inr tps" "file_log_pairs ''sinks'' es = Inr sps"
    "file_table_map self = Some (dict_of_pairs tps)" "sm = dict_of_pairs sps"
    "fileLogs self = fl" "sinksConfig self = sc"
    by blast
  have tmd: "tm = dict_of_pairs tps" using tm m(5) by simp
  have t: "fileLogs_truthy (fileLogs self)" using m(1,2,7) by (simp add: fileLogs_truthy_def)
  have c: "oms_mdsd_filelog_config self = None" using init_caches [OF i] by simp
  have "map fst tps = map fst sps"
    using file_log_pairs_keys [OF m(3)] file_log_pairs_keys [OF m(4)] by simp
  then have "fst ` set tps = fst ` set sps" by (metis set_map)
  moreover from f have "f \<in> fst ` set sm" by (metis map_of_eq_None_iff option.distinct(1))
  ultimately have fk: "f \<in> fst ` set tm"
    using m(6) tmd by (simp add: dict_of_pairs_keys)
  then have k: "f \<in> set (sort (map fst tm))" by simp
  from fk obtain tv where tv: "map_of tm f = Some tv"
    by (metis map_of_eq_None_iff not_Some_eq)
  have "List.find (\<lambda>k. isl (generate_routeevent_and_eh_url_for_extra_sink sc k))
          (str_split CHR '','' s) = Some n"
    using n before by (intro find_first) (simp_all add: bad)
  then have l: "filelog_sinks_loop sc (str_split CHR '','' s) re eh = Inl e" for re eh
    by (simp add: filelog_sinks_loop_find bad)
  have "filelog_files_loop sc tm sm (sort (map fst tm)) [] [] [] = Inl e"
    using k files tv f s l by (rule filelog_files_loop_first_failure)
  then show ?thesis
    using t tm sm c unfolding m(8) [symmetric] by (intro get_oms_mdsd_filelog_config_raises)
qed

lemma syslog_raises_first:
  assumes i: "LadLoggingConfig_init (Some r) fl sc = Inr self"
    and m: "syslogEventConfiguration r = Some m" "m \<noteq> []"
    and s: "sinks r = Some s"
    and k: "List.find (\<lambda>k. k = ''LinuxSyslog''
                           \<or> isl (generate_routeevent_and_eh_url_for_extra_sink sc k))
                 (str_split CHR '','' s) = Some k"
  shows "get_oms_mdsd_syslog_config self
           = (if k = ''LinuxSyslog'' then Inl ReservedSinkName
              else Inl (projl (generate_routeevent_and_eh_url_for_extra_sink sc k)), self)"
proof -
  let ?names = "str_split CHR '','' s"
  let ?re = "mdsd_per_routeevent_config_template ''LinuxSyslog'' []"
  let ?e = "if k = ''LinuxSyslog'' then ReservedSinkName
            else projl (generate_routeevent_and_eh_url_for_extra_sink sc k)"
  have en: "\<not> syslog_disabled self" "syslogEvents self = Some r" "sinksConfig self = sc"
    using init_enabled [OF i m] by simp_all
  have c: "oms_mdsd_syslog_config self = None" using init_caches [OF i] by simp
  have "syslog_sinks_loop sc ?names ?re []
          = (if k = ''LinuxSyslog'' then Inl ReservedSinkName
             else Inl (projl (generate_routeevent_and_eh_url_for_extra_sink sc k)))"
    by (simp only: syslog_sinks_loop_find k option.case)
  then have loop: "syslog_sinks_loop sc ?names ?re [] = Inl ?e"
    by (simp only: if_distrib [of Inl])
  have g: "get_oms_mdsd_syslog_config self = (Inl ?e, self)"
    by (rule get_oms_mdsd_syslog_config_raises [OF en(1,2) s c]) (simp only: en(3) loop)
  then show ?thesis by (simp only: g if_distrib [of Inl])
qed

lemma sample_filelog_unknown_init:
  "LadLoggingConfig_init None
            (Some [[(''file'', ''/var/log/a''), (''sinks'', ''NoSuchSink,MyHub'')]])
            sample_sinks
   = Inr \<lparr> syslogEvents = None,
           fileLogs = Some [[(''file'', ''/var/log/a''), (''sinks'', ''NoSuchSink,MyHub'')]],
           sinksConfig = sample_sinks,
           fac_sev_map = None, syslog_disabled = True,
           file_table_map = Some [(''/var/log/a'', [])],
           file_sinks_map = Some [(''/var/log/a'', ''NoSuchSink,MyHub'')],
           oms_rsyslog_config = None, oms_syslog_ng_config = None,
           oms_mdsd_syslog_config = None, oms_mdsd_filelog_config = None \<rparr>"
  by (simp add: LadLoggingConfig_init_def syslogEvents_truthy_def fileLogs_truthy_def
        dict_of_pairs_def)

lemma sample_filelog_bare_init:
  "LadLoggingConfig_init None
            (Some [[(''file'', ''/var/log/a'')],
                   [(''file'', ''/var/log/b''), (''sinks'', ''MyHub'')]])
            sample_sinks
   = Inr \<lparr> syslogEvents = None,
           fileLogs = Some [[(''file'', ''/var/log/a'')],
                            [(''file'', ''/var/log/b''), (''sinks'', ''MyHub'')]],
           sinksConfig = sample_sinks,
           fac_sev_map = None, syslog_disabled = True,
           file_table_map = Some [(''/var/log/a'', []), (''/var/log/b'', [])],
           file_sinks_map = Some [(''/var/log/a'', []), (''/var/log/b'', ''MyHub'')],
           oms_rsyslog_config = None, oms_syslog_ng_config = None,
           oms_mdsd_syslog_config = None, oms_mdsd_filelog_config = None \<rparr>"
  by (simp add: LadLoggingConfig_init_def syslogEvents_truthy_def fileLogs_truthy_def
        dict_of_pairs_def)

lemma sample_sort: "sort [''/var/log/a'', ''/var/log/b''] = [''/var/log/a'', ''/var/log/b'']"
  by simp

lemma sample_unknown_sink:
  "generate_routeevent_and_eh_url_for_extra_sink sample_sinks ''NoSuchSink''
     = Inl (SinkNotDefined ''NoSuchSink'')"
  by (simp add: generate_routeevent_and_eh_url_for_extra_sink_def sample_sinks_def)

subsection \<open>The text of the file-log configurations\<close>








subsection \<open>The mdsd syslog configuration when syslog is disabled\<close>

text \<open>
  C1, as stated, fails: \<open>get_oms_mdsd_syslog_config\<close> does return early when syslog
  collection is disabled. For the instance built from no syslog settings at all the result
  is the empty string, not a document.
\<close>

theorem C1_counterexample:
  "(case LadLoggingConfig_init None None Map.empty of
      Inl e \<Rightarrow> False
    | Inr self \<Rightarrow> fst (get_oms_mdsd_syslog_config self) = Inr [])"
  by (simp add: LadLoggingConfig_init_def syslogEvents_truthy_def fileLogs_truthy_def
                get_oms_mdsd_syslog_config_def generate_oms_mdsd_syslog_config_def)

text \<open>
  C1, amended: for every instance whose syslog settings are absent or have an empty
  \<open>syslogEventConfiguration\<close>, \<open>get_oms_mdsd_syslog_config\<close> returns the empty string,
  raises nothing whatever the sinks list names, and stores the empty string as its result.
\<close>

theorem C1_disabled_short_circuit:
  assumes "LadLoggingConfig_init se fl sc = Inr self"
    and "case se of None \<Rightarrow> True
         | Some r \<Rightarrow> (case syslogEventConfiguration r of None \<Rightarrow> True | Some m \<Rightarrow> m = [])"
  shows "get_oms_mdsd_syslog_config self = (Inr [], self\<lparr>oms_mdsd_syslog_config := Some []\<rparr>)"
proof -
  have d: "syslog_disabled self" using assms by (rule init_disabled)
  have c: "oms_mdsd_syslog_config self = None"
    using init_caches [OF assms(1)] by simp
  show ?thesis
    using d c by (simp add: get_oms_mdsd_syslog_config_def generate_oms_mdsd_syslog_config_def)
qed

theorem C1_witness:
  "(case LadLoggingConfig_init
            (Some \<lparr>sinks = Some ''LinuxSyslog,NoSuchSink'', syslogEventConfiguration = Some []\<rparr>)
            None Map.empty of
      Inl e \<Rightarrow> False
    | Inr self \<Rightarrow>
        get_oms_mdsd_syslog_config self = (Inr [], self\<lparr>oms_mdsd_syslog_config := Some []\<rparr>))"
proof -
  obtain self where i: "LadLoggingConfig_init
      (Some \<lparr>sinks = Some ''LinuxSyslog,NoSuchSink'', syslogEventConfiguration = Some []\<rparr>)
      None Map.empty = Inr self"
    by (simp add: LadLoggingConfig_init_def syslogEvents_truthy_def fileLogs_truthy_def)
  show ?thesis
    using C1_disabled_short_circuit [OF i] by (simp add: i)
qed

subsection \<open>The reserved sink name\<close>

text \<open>
  C2, as stated, fails for the file-log generator, which reserves no name: with a sink named
  \<open>LinuxSyslog\<close> in the sinks configuration, a file-log entry that names it gets its XML,
  with a route to that sink.
\<close>

theorem C2_counterexample:
  \<open>(case LadLoggingConfig_init None
            (Some [[(''file'', ''/var/log/a''), (''sinks'', ''LinuxSyslog'')]]) sample_sinks of
      Inl e \<Rightarrow> False
    | Inr self \<Rightarrow>
        fst (get_oms_mdsd_filelog_config self) =
          Inr (mdsd_sources_events_config_template
                 (mdsd_per_source_config_template ''mdsd.filelog.var.log.a'')
                 (mdsd_per_event_source_config_template ''mdsd.filelog.var.log.a''
                    (mdsd_per_routeevent_config_template ''LinuxSyslog'' ''storeType="JsonBlob"''))
                 []))\<close>
  by (simp only: sample_filelog_init sum.case)
     (simp add: get_oms_mdsd_filelog_config_def generate_oms_mdsd_filelog_config_def
        fileLogs_truthy_def sample_filelog_loop del: filelog_files_loop.simps)

text \<open>
  C2, amended: for every instance with a non-empty \<open>syslogEventConfiguration\<close> whose sinks
  list names \<open>LinuxSyslog\<close>, \<open>get_oms_mdsd_syslog_config\<close> raises before any XML is made:
  it returns no string and leaves the instance, and its unset result, as they were. The
  error is that of the first name in the list that is \<open>LinuxSyslog\<close> or does not resolve:
  the reserved-name error when every sink named before \<open>LinuxSyslog\<close> resolves, and
  otherwise the error of the first sink that does not. The file-log generator reserves no
  name: it never raises the reserved-name error, and its sink loop fails only where the
  lookup of a sink fails, and then with the error of that lookup.
\<close>

theorem C2_reserved_name:
  assumes "LadLoggingConfig_init (Some r) fl sc = Inr self"
    and "syslogEventConfiguration r = Some m" and "m \<noteq> []"
    and "sinks r = Some s" and "''LinuxSyslog'' \<in> set (str_split CHR '','' s)"
  shows "(\<exists>k. List.find (\<lambda>k. k = ''LinuxSyslog''
                           \<or> isl (generate_routeevent_and_eh_url_for_extra_sink sc k))
                 (str_split CHR '','' s) = Some k
             \<and> get_oms_mdsd_syslog_config self
                 = (if k = ''LinuxSyslog'' then Inl ReservedSinkName
                    else Inl (projl (generate_routeevent_and_eh_url_for_extra_sink sc k)), self))
         \<and> isl (fst (get_oms_mdsd_syslog_config self))
         \<and> snd (get_oms_mdsd_syslog_config self) = self
         \<and> oms_mdsd_syslog_config self = None
         \<and> ((\<forall>k \<in> set (takeWhile (\<lambda>k. k \<noteq> ''LinuxSyslog'') (str_split CHR '','' s)).
                \<not> isl (generate_routeevent_and_eh_url_for_extra_sink sc k))
              \<longrightarrow> fst (get_oms_mdsd_syslog_config self) = Inl ReservedSinkName)
         \<and> fst (get_oms_mdsd_filelog_config self') \<noteq> Inl ReservedSinkName
         \<and> filelog_sinks_loop sc' names re eh
             = (case List.find (\<lambda>k. isl (generate_routeevent_and_eh_url_for_extra_sink sc' k)) names of
                  None \<Rightarrow>
                    Inr (re @ concat (map (\<lambda>k. fst (projr (generate_routeevent_and_eh_url_for_extra_sink sc' k))) names),
                         eh @ concat (map (\<lambda>k. snd (projr (generate_routeevent_and_eh_url_for_extra_sink sc' k))) names))
                | Some k \<Rightarrow> Inl (projl (generate_routeevent_and_eh_url_for_extra_sink sc' k)))"
proof -
  let ?names = "str_split CHR '','' s"
  let ?re = "mdsd_per_routeevent_config_template ''LinuxSyslog'' []"
  let ?P = "\<lambda>k. k = ''LinuxSyslog'' \<or> isl (generate_routeevent_and_eh_url_for_extra_sink sc k)"
  have en: "\<not> syslog_disabled self" "syslogEvents self = Some r" "sinksConfig self = sc"
    using init_enabled [OF assms(1,2,3)] by simp_all
  have c: "oms_mdsd_syslog_config self = None" using init_caches [OF assms(1)] by simp
  have "List.find ?P ?names \<noteq> None" using assms(5) by (auto simp: find_None_iff)
  then obtain k where k: "List.find ?P ?names = Some k" by blast
  let ?e = "if k = ''LinuxSyslog'' then ReservedSinkName
            else projl (generate_routeevent_and_eh_url_for_extra_sink sc k)"
  have "syslog_sinks_loop sc ?names ?re []
          = (if k = ''LinuxSyslog'' then Inl ReservedSinkName
             else Inl (projl (generate_routeevent_and_eh_url_for_extra_sink sc k)))"
    by (simp only: syslog_sinks_loop_find k option.case)
  then have loop: "syslog_sinks_loop sc ?names ?re [] = Inl ?e"
    by (simp only: if_distrib [of Inl])
  have g: "get_oms_mdsd_syslog_config self = (Inl ?e, self)"
    by (rule get_oms_mdsd_syslog_config_raises [OF en(1,2) assms(4) c]) (simp only: en(3) loop)
  have 1: "get_oms_mdsd_syslog_config self
                 = (if k = ''LinuxSyslog'' then Inl ReservedSinkName
                    else Inl (projl (generate_routeevent_and_eh_url_for_extra_sink sc k)), self)"
    by (simp add: g)
  have 2: "isl (fst (get_oms_mdsd_syslog_config self))" by (simp add: g)
  have 3: "snd (get_oms_mdsd_syslog_config self) = self" by (simp add: g)
  have 4: "fst (get_oms_mdsd_syslog_config self) = Inl ReservedSinkName"
    if a: "\<forall>k \<in> set (takeWhile (\<lambda>k. k \<noteq> ''LinuxSyslog'') ?names).
                \<not> isl (generate_routeevent_and_eh_url_for_extra_sink sc k)"
  proof -
    have "\<forall>k \<in> set (takeWhile (\<lambda>k. k \<noteq> ''LinuxSyslog'') ?names). \<not> ?P k"
    proof
      fix x assume x: "x \<in> set (takeWhile (\<lambda>k. k \<noteq> ''LinuxSyslog'') ?names)"
      from set_takeWhileD [OF x] a x show "\<not> ?P x" by blast
    qed
    with assms(5) have "List.find ?P ?names = Some ''LinuxSyslog''"
      by (intro find_first) simp_all
    with k have "k = ''LinuxSyslog''" by simp
    then show ?thesis by (simp add: g)
  qed
  from k 1 2 3 c 4 get_oms_mdsd_filelog_config_not_reserved [of self']
    filelog_sinks_loop_find [of sc' names re eh]
  show ?thesis by blast
qed

theorem C2_witness:
  "(case LadLoggingConfig_init
            (Some \<lparr>sinks = Some ''MySink,LinuxSyslog'',
                   syslogEventConfiguration = Some [(''LOG_USER'', ''LOG_ERR'')]\<rparr>)
            None sample_sinks of
      Inl e \<Rightarrow> False
    | Inr self \<Rightarrow> get_oms_mdsd_syslog_config self = (Inl ReservedSinkName, self))"
proof -
  let ?r = "\<lparr>sinks = Some ''MySink,LinuxSyslog'',
             syslogEventConfiguration = Some [(''LOG_USER'', ''LOG_ERR'')]\<rparr>"
  obtain self where i: "LadLoggingConfig_init (Some ?r) None sample_sinks = Inr self"
    by (simp add: LadLoggingConfig_init_def syslogEvents_truthy_def fileLogs_truthy_def)
  have s: "str_split CHR '','' ''MySink,LinuxSyslog'' = [''MySink'', ''LinuxSyslog'']" by simp
  have a: "syslogEventConfiguration ?r = Some [(''LOG_USER'', ''LOG_ERR'')]" by simp
  have b: "[(''LOG_USER'', ''LOG_ERR'')] \<noteq> []" by simp
  have c: "sinks ?r = Some ''MySink,LinuxSyslog''" by simp
  have d: "''LinuxSyslog'' \<in> set (str_split CHR '','' ''MySink,LinuxSyslog'')" by (simp only: s) simp
  have f: "\<forall>k \<in> set (takeWhile (\<lambda>k. k \<noteq> ''LinuxSyslog'') (str_split CHR '','' ''MySink,LinuxSyslog'')).
                \<not> isl (generate_routeevent_and_eh_url_for_extra_sink sample_sinks k)"
    by (simp only: s) (simp add: sample_sinks_routes)
  from C2_reserved_name [OF i a b c d] f
  have "fst (get_oms_mdsd_syslog_config self) = Inl ReservedSinkName
        \<and> snd (get_oms_mdsd_syslog_config self) = self" by blast
  then have "get_oms_mdsd_syslog_config self = (Inl ReservedSinkName, self)"
    by (simp add: prod_eq_iff)
  then show ?thesis by (simp only: i sum.case)
qed

subsection \<open>An EventHub sink without its URL\<close>

text \<open>
  C6, as stated, fails: a policy can name an EventHub sink that has no \<open>sasURL\<close> and the
  generator still not raise the error of that sink. With syslog disabled the syslog
  generator returns the empty string and stores it. With an undefined sink named first,
  the syslog generator and the file-log generator both raise the error of the undefined
  sink. With an earlier file that has neither table nor sinks, the file-log generator
  raises the error of that file.
\<close>

theorem C6_counterexample:
  "generate_routeevent_and_eh_url_for_extra_sink sample_sinks ''MyHub''
     = Inl (SasUrlNotSpecified ''MyHub'')
   \<and> (case LadLoggingConfig_init
              (Some \<lparr>sinks = Some ''MyHub'', syslogEventConfiguration = Some []\<rparr>)
              None sample_sinks of
        Inl e \<Rightarrow> False
      | Inr self \<Rightarrow>
          get_oms_mdsd_syslog_config self = (Inr [], self\<lparr>oms_mdsd_syslog_config := Some []\<rparr>))
   \<and> (case LadLoggingConfig_init
              (Some \<lparr>sinks = Some ''NoSuchSink,MyHub'',
                     syslogEventConfiguration = Some [(''LOG_USER'', ''LOG_ERR'')]\<rparr>)
              None sample_sinks of
        Inl e \<Rightarrow> False
      | Inr self \<Rightarrow>
          fst (get_oms_mdsd_syslog_config self) = Inl (SinkNotDefined ''NoSuchSink''))
   \<and> (case LadLoggingConfig_init None
              (Some [[(''file'', ''/var/log/a''), (''sinks'', ''NoSuchSink,MyHub'')]])
              sample_sinks of
        Inl e \<Rightarrow> False
      | Inr self \<Rightarrow>
          fst (get_oms_mdsd_filelog_config self) = Inl (SinkNotDefined ''NoSuchSink''))
   \<and> (case LadLoggingConfig_init None
              (Some [[(''file'', ''/var/log/a'')],
                     [(''file'', ''/var/log/b''), (''sinks'', ''MyHub'')]])
              sample_sinks of
        Inl e \<Rightarrow> False
      | Inr self \<Rightarrow>
          fst (get_oms_mdsd_filelog_config self) = Inl (NeitherTableNorSinks ''/var/log/a''))"
proof -
  let ?r = "\<lparr>sinks = Some ''MyHub'', syslogEventConfiguration = Some []\<rparr>"
  let ?q = "\<lparr>sinks = Some ''NoSuchSink,MyHub'',
             syslogEventConfiguration = Some [(''LOG_USER'', ''LOG_ERR'')]\<rparr>"
  obtain self where i: "LadLoggingConfig_init (Some ?r) None sample_sinks = Inr self"
    by (simp add: LadLoggingConfig_init_def syslogEvents_truthy_def fileLogs_truthy_def)
  have "syslog_disabled self" using i by (rule init_disabled) simp
  moreover have "oms_mdsd_syslog_config self = None" using init_caches [OF i] by simp
  ultimately have 2: "get_oms_mdsd_syslog_config self
      = (Inr [], self\<lparr>oms_mdsd_syslog_config := Some []\<rparr>)"
    by (simp add: get_oms_mdsd_syslog_config_def generate_oms_mdsd_syslog_config_def)
  obtain self' where i': "LadLoggingConfig_init (Some ?q) None sample_sinks = Inr self'"
    by (simp add: LadLoggingConfig_init_def syslogEvents_truthy_def fileLogs_truthy_def)
  have sp: "str_split CHR '','' ''NoSuchSink,MyHub'' = [''NoSuchSink'', ''MyHub'']" by simp
  have n: "''NoSuchSink'' \<in> set (str_split CHR '','' ''NoSuchSink,MyHub'')"
    by (simp only: sp) simp
  have a: "syslogEventConfiguration ?q = Some [(''LOG_USER'', ''LOG_ERR'')]" by simp
  have b: "[(''LOG_USER'', ''LOG_ERR'')] \<noteq> []" by simp
  have c: "sinks ?q = Some ''NoSuchSink,MyHub''" by simp
  have e: "''NoSuchSink'' \<noteq> ''LinuxSyslog''" by simp
  have f: "\<forall>k \<in> set (takeWhile (\<lambda>k. k \<noteq> ''NoSuchSink'') (str_split CHR '','' ''NoSuchSink,MyHub'')).
             k \<noteq> ''LinuxSyslog''
             \<and> \<not> isl (generate_routeevent_and_eh_url_for_extra_sink sample_sinks k)"
    by (simp only: sp) simp
  from syslog_raises_on_failing_sink [OF i' a b c n sample_unknown_sink] e f
  have 3: "fst (get_oms_mdsd_syslog_config self') = Inl (SinkNotDefined ''NoSuchSink'')"
    by auto
  obtain s4 where i4: "LadLoggingConfig_init None
              (Some [[(''file'', ''/var/log/a''), (''sinks'', ''NoSuchSink,MyHub'')]])
              sample_sinks = Inr s4"
    and tm4: "file_table_map s4 = Some [(''/var/log/a'', [])]"
    and sm4: "file_sinks_map s4 = Some [(''/var/log/a'', ''NoSuchSink,MyHub'')]"
    by (simp add: sample_filelog_unknown_init)
  have f4: "\<forall>k \<in> set (takeWhile (\<lambda>k. k \<noteq> ''NoSuchSink'') (str_split CHR '','' ''NoSuchSink,MyHub'')).
             \<not> isl (generate_routeevent_and_eh_url_for_extra_sink sample_sinks k)"
    by (simp only: sp) simp
  have l4: "\<forall>k \<in> set (takeWhile (\<lambda>k. k \<noteq> ''/var/log/a'') (sort (map fst [(''/var/log/a'', [])]))).
             \<exists>t s. map_of [(''/var/log/a'', [])] k = Some t
                   \<and> map_of [(''/var/log/a'', ''NoSuchSink,MyHub'')] k = Some s
                   \<and> (t \<noteq> [] \<or> s \<noteq> [])
                   \<and> (\<forall>x \<in> set (if s = [] then [] else str_split CHR '','' s).
                         \<not> isl (generate_routeevent_and_eh_url_for_extra_sink sample_sinks x))"
    by simp
  have g4: "map_of [(''/var/log/a'', ''NoSuchSink,MyHub'')] ''/var/log/a'' = Some ''NoSuchSink,MyHub''"
    by simp
  have h4: "''NoSuchSink,MyHub'' \<noteq> []" by simp
  from filelog_raises_first_failure [OF i4 tm4 sm4 g4 h4 n sample_unknown_sink f4 l4]
  have 4: "fst (get_oms_mdsd_filelog_config s4) = Inl (SinkNotDefined ''NoSuchSink'')" by simp
  have loop5: "filelog_files_loop sample_sinks
      [(''/var/log/a'', []), (''/var/log/b'', [])]
      [(''/var/log/a'', []), (''/var/log/b'', ''MyHub'')]
      [''/var/log/a'', ''/var/log/b''] [] [] [] = Inl (NeitherTableNorSinks ''/var/log/a'')"
    by simp
  have 5: "(case LadLoggingConfig_init None
              (Some [[(''file'', ''/var/log/a'')],
                     [(''file'', ''/var/log/b''), (''sinks'', ''MyHub'')]])
              sample_sinks of
        Inl e \<Rightarrow> False
      | Inr self \<Rightarrow>
          fst (get_oms_mdsd_filelog_config self) = Inl (NeitherTableNorSinks ''/var/log/a''))"
    by (simp only: sample_filelog_bare_init sum.case)
       (simp add: get_oms_mdsd_filelog_config_def generate_oms_mdsd_filelog_config_def
          fileLogs_truthy_def sample_sort loop5 del: filelog_files_loop.simps)
  from sample_sinks_routes(3) 2 3 4 5 show ?thesis by (simp only: i i' i4 sum.case simp_thms)
qed

text \<open>
  C6, amended: for a sink whose definition has type \<open>EventHub\<close> and no \<open>sasURL\<close>, the sink
  helper raises the error of the missing URL. A syslog instance with a non-empty
  \<open>syslogEventConfiguration\<close> whose sinks list names that sink, and a file-log instance
  whose sinks recorded for some file name it, raise from the mdsd generator: no string is
  returned and the instance, with its unset result, is unchanged. The error is the first
  failure that the generator meets. For syslog it is the error of the first name in the
  list that is \<open>LinuxSyslog\<close> or does not resolve, hence that of the missing URL when the
  sink is not \<open>LinuxSyslog\<close> and every sink named before it resolves and is not
  \<open>LinuxSyslog\<close>. For file logs it is that of the missing URL when every sink named before
  it for that file resolves and every file sorted before that file has a table or sinks
  and only sinks that resolve.
\<close>

theorem C6_eventhub_without_sasurl:
  assumes "sc n = Some d" and "d \<noteq> []" and "map_of d ''type'' = Some ''EventHub''"
    and "map_of d ''sasURL'' = None"
  shows "generate_routeevent_and_eh_url_for_extra_sink sc n = Inl (SasUrlNotSpecified n)
    \<and> (LadLoggingConfig_init (Some r) fl sc = Inr self
          \<and> syslogEventConfiguration r = Some m \<and> m \<noteq> []
          \<and> sinks r = Some s \<and> n \<in> set (str_split CHR '','' s)
        \<longrightarrow> (\<exists>k. List.find (\<lambda>k. k = ''LinuxSyslog''
                                 \<or> isl (generate_routeevent_and_eh_url_for_extra_sink sc k))
                       (str_split CHR '','' s) = Some k
                   \<and> get_oms_mdsd_syslog_config self
                       = (if k = ''LinuxSyslog'' then Inl ReservedSinkName
                          else Inl (projl (generate_routeevent_and_eh_url_for_extra_sink sc k)),
                          self))
            \<and> isl (fst (get_oms_mdsd_syslog_config self))
            \<and> snd (get_oms_mdsd_syslog_config self) = self
            \<and> oms_mdsd_syslog_config self = None
            \<and> (n \<noteq> ''LinuxSyslog''
                 \<and> (\<forall>k \<in> set (takeWhile (\<lambda>k. k \<noteq> n) (str_split CHR '','' s)).
                       k \<noteq> ''LinuxSyslog''
                       \<and> \<not> isl (generate_routeevent_and_eh_url_for_extra_sink sc k))
                \<longrightarrow> fst (get_oms_mdsd_syslog_config self) = Inl (SasUrlNotSpecified n)))
    \<and> (LadLoggingConfig_init se' fl' sc = Inr self'
          \<and> file_table_map self' = Some tm \<and> file_sinks_map self' = Some sm
          \<and> map_of sm f = Some s' \<and> s' \<noteq> []
          \<and> n \<in> set (str_split CHR '','' s')
        \<longrightarrow> isl (fst (get_oms_mdsd_filelog_config self'))
            \<and> snd (get_oms_mdsd_filelog_config self') = self'
            \<and> oms_mdsd_filelog_config self' = None
            \<and> ((\<forall>k \<in> set (takeWhile (\<lambda>k. k \<noteq> n) (str_split CHR '','' s')).
                   \<not> isl (generate_routeevent_and_eh_url_for_extra_sink sc k))
                 \<and> (\<forall>k \<in> set (takeWhile (\<lambda>k. k \<noteq> f) (sort (map fst tm))).
                       \<exists>t s. map_of tm k = Some t \<and> map_of sm k = Some s
                             \<and> (t \<noteq> [] \<or> s \<noteq> [])
                             \<and> (\<forall>x \<in> set (if s = [] then [] else str_split CHR '','' s).
                                   \<not> isl (generate_routeevent_and_eh_url_for_extra_sink sc x)))
                \<longrightarrow> fst (get_oms_mdsd_filelog_config self') = Inl (SasUrlNotSpecified n)))"
proof -
  let ?P = "\<lambda>k. k = ''LinuxSyslog'' \<or> isl (generate_routeevent_and_eh_url_for_extra_sink sc k)"
  have bad: "generate_routeevent_and_eh_url_for_extra_sink sc n = Inl (SasUrlNotSpecified n)"
    using assms by (simp add: generate_routeevent_and_eh_url_for_extra_sink_def)
  have A: "(\<exists>k. List.find ?P (str_split CHR '','' s) = Some k
                   \<and> get_oms_mdsd_syslog_config self
                       = (if k = ''LinuxSyslog'' then Inl ReservedSinkName
                          else Inl (projl (generate_routeevent_and_eh_url_for_extra_sink sc k)),
                          self))
            \<and> isl (fst (get_oms_mdsd_syslog_config self))
            \<and> snd (get_oms_mdsd_syslog_config self) = self
            \<and> oms_mdsd_syslog_config self = None
            \<and> (n \<noteq> ''LinuxSyslog''
                 \<and> (\<forall>k \<in> set (takeWhile (\<lambda>k. k \<noteq> n) (str_split CHR '','' s)).
                       k \<noteq> ''LinuxSyslog''
                       \<and> \<not> isl (generate_routeevent_and_eh_url_for_extra_sink sc k))
                \<longrightarrow> fst (get_oms_mdsd_syslog_config self) = Inl (SasUrlNotSpecified n))"
    if i: "LadLoggingConfig_init (Some r) fl sc = Inr self"
      and m: "syslogEventConfiguration r = Some m" "m \<noteq> []"
      and s: "sinks r = Some s" and n: "n \<in> set (str_split CHR '','' s)"
  proof -
    have "?P n" by (simp add: bad)
    with n have "List.find ?P (str_split CHR '','' s) \<noteq> None" by (auto simp: find_None_iff)
    then obtain k where k: "List.find ?P (str_split CHR '','' s) = Some k" by blast
    note g = syslog_raises_first [OF i m s k]
    have c: "oms_mdsd_syslog_config self = None" using init_caches [OF i] by simp
    have 2: "isl (fst (get_oms_mdsd_syslog_config self))" by (simp add: g)
    have 3: "snd (get_oms_mdsd_syslog_config self) = self" by (simp add: g)
    have 4: "fst (get_oms_mdsd_syslog_config self) = Inl (SasUrlNotSpecified n)"
      if a: "n \<noteq> ''LinuxSyslog''"
        and b: "\<forall>k \<in> set (takeWhile (\<lambda>k. k \<noteq> n) (str_split CHR '','' s)).
                       k \<noteq> ''LinuxSyslog''
                       \<and> \<not> isl (generate_routeevent_and_eh_url_for_extra_sink sc k)"
    proof -
      from b have "\<forall>k \<in> set (takeWhile (\<lambda>k. k \<noteq> n) (str_split CHR '','' s)). \<not> ?P k" by blast
      with n \<open>?P n\<close> have "List.find ?P (str_split CHR '','' s) = Some n"
        by (intro find_first)
      with k have "k = n" by simp
      with a show ?thesis by (simp add: g bad)
    qed
    from k g 2 3 c 4 show ?thesis by blast
  qed
  have B: "isl (fst (get_oms_mdsd_filelog_config self'))
            \<and> snd (get_oms_mdsd_filelog_config self') = self'
            \<and> oms_mdsd_filelog_config self' = None
            \<and> ((\<forall>k \<in> set (takeWhile (\<lambda>k. k \<noteq> n) (str_split CHR '','' s')).
                   \<not> isl (generate_routeevent_and_eh_url_for_extra_sink sc k))
                 \<and> (\<forall>k \<in> set (takeWhile (\<lambda>k. k \<noteq> f) (sort (map fst tm))).
                       \<exists>t s. map_of tm k = Some t \<and> map_of sm k = Some s
                             \<and> (t \<noteq> [] \<or> s \<noteq> [])
                             \<and> (\<forall>x \<in> set (if s = [] then [] else str_split CHR '','' s).
                                   \<not> isl (generate_routeevent_and_eh_url_for_extra_sink sc x)))
                \<longrightarrow> fst (get_oms_mdsd_filelog_config self') = Inl (SasUrlNotSpecified n))"
    if i: "LadLoggingConfig_init se' fl' sc = Inr self'"
      and tm: "file_table_map self' = Some tm"
      and sm: "file_sinks_map self' = Some sm" and f: "map_of sm f = Some s'" and s: "s' \<noteq> []"
      and n: "n \<in> set (str_split CHR '','' s')"
  proof -
    have "isl (generate_routeevent_and_eh_url_for_extra_sink sc n)" by (simp add: bad)
    from filelog_raises_on_failing_sink [OF i sm f s n this] obtain e where
      g: "get_oms_mdsd_filelog_config self' = (Inl e, self')" by blast
    have c: "oms_mdsd_filelog_config self' = None" using init_caches [OF i] by simp
    have 1: "isl (fst (get_oms_mdsd_filelog_config self'))" by (simp add: g)
    have 2: "snd (get_oms_mdsd_filelog_config self') = self'" by (simp add: g)
    have 3: "fst (get_oms_mdsd_filelog_config self') = Inl (SasUrlNotSpecified n)"
      if a: "\<forall>k \<in> set (takeWhile (\<lambda>k. k \<noteq> n) (str_split CHR '','' s')).
                   \<not> isl (generate_routeevent_and_eh_url_for_extra_sink sc k)"
        and b: "\<forall>k \<in> set (takeWhile (\<lambda>k. k \<noteq> f) (sort (map fst tm))).
                       \<exists>t s. map_of tm k = Some t \<and> map_of sm k = Some s
                             \<and> (t \<noteq> [] \<or> s \<noteq> [])
                             \<and> (\<forall>x \<in> set (if s = [] then [] else str_split CHR '','' s).
                                   \<not> isl (generate_routeevent_and_eh_url_for_extra_sink sc x))"
      using filelog_raises_first_failure [OF i tm sm f s n bad a b] by simp
    from 1 2 c 3 show ?thesis by blast
  qed
  from bad A B show ?thesis by blast
qed

theorem C6_witness:
  "generate_routeevent_and_eh_url_for_extra_sink sample_sinks ''MyHub''
     = Inl (SasUrlNotSpecified ''MyHub'')
   \<and> (case LadLoggingConfig_init
              (Some \<lparr>sinks = Some ''MySink,MyHub'',
                     syslogEventConfiguration = Some [(''LOG_USER'', ''LOG_ERR'')]\<rparr>)
              None sample_sinks of
        Inl e \<Rightarrow> False
      | Inr self \<Rightarrow>
          get_oms_mdsd_syslog_config self = (Inl (SasUrlNotSpecified ''MyHub''), self))
   \<and> (case LadLoggingConfig_init None
              (Some [[(''file'', ''/var/log/a''), (''table'', ''T''), (''sinks'', ''MyHub'')]])
              sample_sinks of
        Inl e \<Rightarrow> False
      | Inr self \<Rightarrow>
          get_oms_mdsd_filelog_config self = (Inl (SasUrlNotSpecified ''MyHub''), self))"
proof -
  let ?r = "\<lparr>sinks = Some ''MySink,MyHub'',
             syslogEventConfiguration = Some [(''LOG_USER'', ''LOG_ERR'')]\<rparr>"
  let ?fl = "Some [[(''file'', ''/var/log/a''), (''table'', ''T''), (''sinks'', ''MyHub'')]]"
  have h1: "sample_sinks ''MyHub'' = Some [(''type'', ''EventHub'')]"
    by (rule sample_sinks_simps)
  have h2: "[(''type'', ''EventHub'')] \<noteq> []" by simp
  have h3: "map_of [(''type'', ''EventHub'')] ''type'' = Some ''EventHub''" by simp
  have h4: "map_of [(''type'', ''EventHub'')] ''sasURL'' = None" by simp
  obtain self where i: "LadLoggingConfig_init (Some ?r) None sample_sinks = Inr self"
    by (simp add: LadLoggingConfig_init_def syslogEvents_truthy_def fileLogs_truthy_def)
  obtain self' where i': "LadLoggingConfig_init None ?fl sample_sinks = Inr self'"
    and tm: "file_table_map self' = Some [(''/var/log/a'', ''T'')]"
    and sm: "file_sinks_map self' = Some [(''/var/log/a'', ''MyHub'')]"
    by (simp add: sample_filelog_hub_init)
  have sp: "str_split CHR '','' ''MySink,MyHub'' = [''MySink'', ''MyHub'']" by simp
  have sp': "str_split CHR '','' ''MyHub'' = [''MyHub'']" by simp
  have a: "syslogEventConfiguration ?r = Some [(''LOG_USER'', ''LOG_ERR'')]" by simp
  have b: "[(''LOG_USER'', ''LOG_ERR'')] \<noteq> []" by simp
  have c: "sinks ?r = Some ''MySink,MyHub''" by simp
  have d: "''MyHub'' \<in> set (str_split CHR '','' ''MySink,MyHub'')" by (simp only: sp) simp
  have e: "''MyHub'' \<noteq> ''LinuxSyslog''" by simp
  have f: "\<forall>k \<in> set (takeWhile (\<lambda>k. k \<noteq> ''MyHub'') (str_split CHR '','' ''MySink,MyHub'')).
             k \<noteq> ''LinuxSyslog''
             \<and> \<not> isl (generate_routeevent_and_eh_url_for_extra_sink sample_sinks k)"
    by (simp only: sp) (simp add: sample_sinks_routes)
  have g: "map_of [(''/var/log/a'', ''MyHub'')] ''/var/log/a'' = Some ''MyHub''" by simp
  have h: "''MyHub'' \<noteq> []" by simp
  have j: "''MyHub'' \<in> set (str_split CHR '','' ''MyHub'')" by (simp only: sp') simp
  have k: "\<forall>k \<in> set (takeWhile (\<lambda>k. k \<noteq> ''MyHub'') (str_split CHR '','' ''MyHub'')).
             \<not> isl (generate_routeevent_and_eh_url_for_extra_sink sample_sinks k)"
    by (simp only: sp') simp
  have l: "\<forall>k \<in> set (takeWhile (\<lambda>k. k \<noteq> ''/var/log/a'') (sort (map fst [(''/var/log/a'', ''T'')]))).
             \<exists>t s. map_of [(''/var/log/a'', ''T'')] k = Some t
                   \<and> map_of [(''/var/log/a'', ''MyHub'')] k = Some s
                   \<and> (t \<noteq> [] \<or> s \<noteq> [])
                   \<and> (\<forall>x \<in> set (if s = [] then [] else str_split CHR '','' s).
                         \<not> isl (generate_routeevent_and_eh_url_for_extra_sink sample_sinks x))"
    by simp
  note T = C6_eventhub_without_sasurl [where sc = sample_sinks and n = "''MyHub''"
      and d = "[(''type'', ''EventHub'')]" and r = ?r and fl = None and self = self
      and m = "[(''LOG_USER'', ''LOG_ERR'')]" and s = "''MySink,MyHub''"
      and se' = None and fl' = ?fl and self' = self'
      and tm = "[(''/var/log/a'', ''T'')]"
      and sm = "[(''/var/log/a'', ''MyHub'')]" and f = "''/var/log/a''" and s' = "''MyHub''",
      OF h1 h2 h3 h4]
  from T have 1: "generate_routeevent_and_eh_url_for_extra_sink sample_sinks ''MyHub''
     = Inl (SasUrlNotSpecified ''MyHub'')" by blast
  from T i a b c d e f have "fst (get_oms_mdsd_syslog_config self) = Inl (SasUrlNotSpecified ''MyHub'')
        \<and> snd (get_oms_mdsd_syslog_config self) = self" by blast
  then have 2: "get_oms_mdsd_syslog_config self = (Inl (SasUrlNotSpecified ''MyHub''), self)"
    by (simp add: prod_eq_iff)
  from T i' tm sm g h j k l
  have "fst (get_oms_mdsd_filelog_config self') = Inl (SasUrlNotSpecified ''MyHub'')
        \<and> snd (get_oms_mdsd_filelog_config self') = self'" by blast
  then have 3: "get_oms_mdsd_filelog_config self' = (Inl (SasUrlNotSpecified ''MyHub''), self')"
    by (simp add: prod_eq_iff)
  from 1 2 3 show ?thesis by (simp only: i i' sum.case simp_thms)
qed

subsection \<open>File-log entries with the same file\<close>




subsection \<open>The per-file source name\<close>

text \<open>
  C3, as stated, fails: the source name is not injective on file paths. A path with a dot
  where another has a slash gets the same name.
\<close>

theorem C3_counterexample:
  "''/var/log/a.b'' \<noteq> ''/var/log/a/b''
   \<and> filelog_source_name ''/var/log/a.b'' = filelog_source_name ''/var/log/a/b''"
  by (simp add: filelog_source_name_def str_replace_def)

lemma str_replace_slash_eq:
  "(str_replace CHR ''/'' CHR ''.'' p = str_replace CHR ''/'' CHR ''.'' q)
     = list_all2 (\<lambda>a b. a = b \<or> (a = CHR ''/'' \<and> b = CHR ''.'') \<or> (a = CHR ''.'' \<and> b = CHR ''/'')) p q"
proof (induction p arbitrary: q)
  case Nil
  show ?case by (auto simp: str_replace_def)
next
  case (Cons c p)
  show ?case
  proof (cases q)
    case Nil
    then show ?thesis by (simp add: str_replace_def)
  next
    case (Cons d q')
    with Cons.IH [of q'] show ?thesis
      by (auto simp: str_replace_def)
  qed
qed

text \<open>
  C3, amended: two file paths get the same source name exactly when they have the same
  length and, at every position, either the same character or a slash in one and a dot
  in the other. So two distinct paths get distinct source names unless they differ only
  by a slash against a dot at the same positions.
\<close>

theorem C3_source_name_collision:
  "(filelog_source_name p = filelog_source_name q)
     = list_all2 (\<lambda>a b. a = b \<or> (a = CHR ''/'' \<and> b = CHR ''.'') \<or> (a = CHR ''.'' \<and> b = CHR ''/'')) p q"
  by (simp add: filelog_source_name_def str_replace_slash_eq)

theorem C3_witness:
  "filelog_source_name ''/var/log/app.log'' \<noteq> filelog_source_name ''/var/log/sys.log''
   \<and> filelog_source_name ''/var/log/a'' \<noteq> filelog_source_name ''/var/log/b''
   \<and> filelog_source_name ''/a.b/c'' = filelog_source_name ''/a/b.c''"
  using C3_source_name_collision [of "''/var/log/app.log''" "''/var/log/sys.log''"]
        C3_source_name_collision [of "''/var/log/a''" "''/var/log/b''"]
        C3_source_name_collision [of "''/a.b/c''" "''/a/b.c''"]
  by simp

subsection \<open>The name table\<close>

lemma table_distinct: "distinct (map fst syslog_name_to_rsyslog_name_map)"
  by (simp add: syslog_name_to_rsyslog_name_map_def)

text \<open>
  C5, as stated, fails on the size of the table: it does not have 14 facility names and
  8 severity names, 22 names at most; it has more distinct names than that.
\<close>

theorem C5_counterexample:
  "\<not> length (remdups (map fst syslog_name_to_rsyslog_name_map)) \<le> 14 + 8"
  by (simp add: syslog_name_to_rsyslog_name_map_def)

text \<open>
  C5, amended: \<open>syslog_name_to_rsyslog_name\<close> is an exact-match lookup in a fixed table of
  28 distinct names (20 facilities and 8 severities): it returns \<open>v\<close> for \<open>n\<close> exactly when
  \<open>(n, v)\<close> is an entry, raises the unknown-name error exactly for the names that are not keys
  of the table, and does not normalise case (\<open>log_user\<close> is unknown).
\<close>

theorem C5_lookup:
  "(syslog_name_to_rsyslog_name n = Inr v) = ((n, v) \<in> set syslog_name_to_rsyslog_name_map)
   \<and> (syslog_name_to_rsyslog_name n = Inl (InvalidSyslogName n))
       = (n \<notin> fst ` set syslog_name_to_rsyslog_name_map)
   \<and> length syslog_name_to_rsyslog_name_map = 20 + 8
   \<and> distinct (map fst syslog_name_to_rsyslog_name_map)
   \<and> syslog_name_to_rsyslog_name ''log_user'' = Inl (InvalidSyslogName ''log_user'')"
proof -
  have d: "distinct (map fst syslog_name_to_rsyslog_name_map)" by (rule table_distinct)
  have "(syslog_name_to_rsyslog_name n = Inr v) = (map_of syslog_name_to_rsyslog_name_map n = Some v)"
    by (simp add: syslog_name_to_rsyslog_name_def split: option.splits)
  then have a: "(syslog_name_to_rsyslog_name n = Inr v) = ((n, v) \<in> set syslog_name_to_rsyslog_name_map)"
    by (simp only: map_of_eq_Some_iff [OF d])
  have "(syslog_name_to_rsyslog_name n = Inl (InvalidSyslogName n))
       = (map_of syslog_name_to_rsyslog_name_map n = None)"
    by (simp add: syslog_name_to_rsyslog_name_def split: option.splits)
  then have b: "(syslog_name_to_rsyslog_name n = Inl (InvalidSyslogName n))
       = (n \<notin> fst ` set syslog_name_to_rsyslog_name_map)"
    by (simp only: map_of_eq_None_iff)
  have c: "length syslog_name_to_rsyslog_name_map = 20 + 8"
    by (simp add: syslog_name_to_rsyslog_name_map_def)
  have e: "syslog_name_to_rsyslog_name ''log_user'' = Inl (InvalidSyslogName ''log_user'')"
    by (simp add: syslog_name_to_rsyslog_name_def syslog_name_to_rsyslog_name_map_def)
  from a b c d e show ?thesis by blast
qed

subsection \<open>The generators when syslog is disabled, and one rsyslog line\<close>

text \<open>
  C7: for every instance whose syslog settings are absent or have an empty
  \<open>syslogEventConfiguration\<close>, the rsyslog fragment, the syslog-ng fragment and the fluentd
  syslog source configuration are all the empty string.
\<close>

theorem C7_disabled_empty:
  assumes "LadLoggingConfig_init se fl sc = Inr self"
    and "case se of None \<Rightarrow> True
         | Some r \<Rightarrow> (case syslogEventConfiguration r of None \<Rightarrow> True | Some m \<Rightarrow> m = [])"
  shows "fst (get_oms_rsyslog_config self) = Inr []
         \<and> fst (get_oms_syslog_ng_config src_name self) = Inr []
         \<and> get_oms_fluentd_syslog_src_config self = []"
proof -
  have d: "syslog_disabled self" using assms by (rule init_disabled)
  have c: "oms_rsyslog_config self = None" "oms_syslog_ng_config self = None"
    using init_caches [OF assms(1)] by simp_all
  show ?thesis
    using d c
    by (simp add: get_oms_rsyslog_config_def get_oms_syslog_ng_config_def
                  get_oms_fluentd_syslog_src_config_def)
qed

theorem C7_witness:
  "(case LadLoggingConfig_init (Some \<lparr>sinks = Some ''MySink'', syslogEventConfiguration = Some []\<rparr>)
            None Map.empty of
      Inl e \<Rightarrow> False
    | Inr self \<Rightarrow>
        fst (get_oms_rsyslog_config self) = Inr []
        \<and> fst (get_oms_syslog_ng_config ''s_src'' self) = Inr []
        \<and> get_oms_fluentd_syslog_src_config self = [])"
proof -
  obtain self where i: "LadLoggingConfig_init
      (Some \<lparr>sinks = Some ''MySink'', syslogEventConfiguration = Some []\<rparr>) None Map.empty = Inr self"
    by (simp add: LadLoggingConfig_init_def syslogEvents_truthy_def fileLogs_truthy_def)
  show ?thesis
    using C7_disabled_empty [OF i, of "''s_src''"] by (simp add: i)
qed

text \<open>
  C8: for the syslog settings with the one pair \<open>LOG_USER\<close>, \<open>LOG_ERR\<close> and the empty sinks
  string, whatever the file logs and the sinks configuration, the rsyslog fragment is the
  line \<open>user.err  @127.0.0.1:%SYSLOG_PORT%\<close> followed by a newline.
\<close>

theorem C8_rsyslog_user_err:
  assumes "LadLoggingConfig_init
             (Some \<lparr>sinks = Some [], syslogEventConfiguration = Some [(''LOG_USER'', ''LOG_ERR'')]\<rparr>)
             fl sc = Inr self"
  shows "fst (get_oms_rsyslog_config self) = Inr (''user.err  @127.0.0.1:%SYSLOG_PORT%'' @ [nl])"
proof -
  have f: "fac_sev_map self = Some [(''LOG_USER'', ''LOG_ERR'')]" "\<not> syslog_disabled self"
    "oms_rsyslog_config self = None"
    using assms
    by (auto simp: LadLoggingConfig_init_def syslogEvents_truthy_def
             split: option.splits if_splits sum.splits)
  have u: "syslog_name_to_rsyslog_name ''LOG_USER'' = Inr ''user''"
    by (simp add: syslog_name_to_rsyslog_name_def syslog_name_to_rsyslog_name_map_def)
  have e: "syslog_name_to_rsyslog_name ''LOG_ERR'' = Inr ''err''"
    by (simp add: syslog_name_to_rsyslog_name_def syslog_name_to_rsyslog_name_map_def)
  show ?thesis
    using f u e by (simp add: get_oms_rsyslog_config_def)
qed

theorem C8_witness:
  "(case LadLoggingConfig_init
            (Some \<lparr>sinks = Some [], syslogEventConfiguration = Some [(''LOG_USER'', ''LOG_ERR'')]\<rparr>)
            None Map.empty of
      Inl e \<Rightarrow> False
    | Inr self \<Rightarrow>
        fst (get_oms_rsyslog_config self) = Inr (''user.err  @127.0.0.1:%SYSLOG_PORT%'' @ [nl]))"
proof -
  obtain self where i: "LadLoggingConfig_init
      (Some \<lparr>sinks = Some [], syslogEventConfiguration = Some [(''LOG_USER'', ''LOG_ERR'')]\<rparr>)
      None Map.empty = Inr self"
    by (simp add: LadLoggingConfig_init_def syslogEvents_truthy_def fileLogs_truthy_def)
  show ?thesis
    using C8_rsyslog_user_err [OF i] by (simp add: i)
qed

section \<open>Properties of the XML helper\<close>

text \<open>
  C9: when the path is not found in the source tree, \<open>copy_sub_elems\<close> returns normally and
  the destination tree is the one it was given, so the sub-elements of every element of
  the destination, and their number, are unchanged.
\<close>

theorem C9_copy_sub_elems_noop:
  assumes "find_path src_xml path = None"
  shows "copy_sub_elems find_path dst_xml src_xml path = Inr dst_xml"
  using assms by (simp add: copy_sub_elems_def)

theorem C9_witness:
  "et_find (Element ''MonitoringManagement'' [] [Element ''Events'' [] [Element ''MdsdEvents'' [] []]])
     ''Sources'' = None
   \<and> copy_sub_elems et_find
       (Element ''MonitoringManagement'' [] [Element ''Sources'' [] [Element ''Source'' [(''name'', ''a'')] []]])
       (Element ''MonitoringManagement'' [] [Element ''Events'' [] [Element ''MdsdEvents'' [] []]])
       ''Sources''
     = Inr (Element ''MonitoringManagement'' [] [Element ''Sources'' [] [Element ''Source'' [(''name'', ''a'')] []]])"
proof -
  have a: "et_find (Element ''MonitoringManagement'' [] [Element ''Events'' [] [Element ''MdsdEvents'' [] []]])
     ''Sources'' = None"
    by (simp add: et_find_def)
  from a C9_copy_sub_elems_noop [of et_find _ "''Sources''", OF a] show ?thesis by blast
qed

section \<open>Properties of the machine identity\<close>

text \<open>
  C4, as stated, fails in its second half: with no system identity file and an empty file
  system, \<open>save_identity\<close> leaves the store file present and empty, and \<open>stored_identity\<close>
  then returns the empty string, not \<open>None\<close>.
\<close>

theorem C4_counterexample:
  "fst (current_identity Inr MachineIdentity_init Map.empty) = Inr None
   \<and> snd (snd (save_identity Inr MachineIdentity_init Map.empty)) (store_identity_file MachineIdentity_init)
       = Some []
   \<and> fst (stored_identity MachineIdentity_init (snd (snd (save_identity Inr MachineIdentity_init Map.empty))))
       = Some []"
  by (simp add: current_identity_def save_identity_def stored_identity_def close_file_def Let_def
                MachineIdentity_init_def hosting_environment_config_def)

text \<open>
  C4, amended: when the system identity file does not exist, \<open>current_identity\<close> returns
  \<open>None\<close>; \<open>save_identity\<close> returns normally and writes no data, but it has opened the store
  file for writing, so that file exists afterwards and is empty, and \<open>stored_identity\<close> then
  returns the empty string.
\<close>

theorem C4_missing_identity_file:
  assumes "fs hosting_environment_config = None"
    and "store_identity_file self \<noteq> hosting_environment_config"
  shows "fst (current_identity role_guid self fs) = Inr None
         \<and> fst (save_identity role_guid self fs) = Inr ()
         \<and> snd (snd (save_identity role_guid self fs)) = fs(store_identity_file self \<mapsto> [])
         \<and> fst (stored_identity self (snd (snd (save_identity role_guid self fs)))) = Some []"
  using assms
  by (simp add: current_identity_def save_identity_def stored_identity_def close_file_def Let_def)

theorem C4_witness:
  "(Map.empty :: filesystem) hosting_environment_config = None
   \<and> store_identity_file MachineIdentity_init \<noteq> hosting_environment_config
   \<and> fst (current_identity Inr MachineIdentity_init Map.empty) = Inr None
   \<and> fst (save_identity Inr MachineIdentity_init Map.empty) = Inr ()
   \<and> snd (snd (save_identity Inr MachineIdentity_init Map.empty))
       = Map.empty(store_identity_file MachineIdentity_init \<mapsto> [])
   \<and> fst (stored_identity MachineIdentity_init (snd (snd (save_identity Inr MachineIdentity_init Map.empty))))
       = Some []"
proof -
  have a: "(Map.empty :: filesystem) hosting_environment_config = None" by simp
  have b: "store_identity_file MachineIdentity_init \<noteq> hosting_environment_config"
    by (simp add: MachineIdentity_init_def hosting_environment_config_def)
  from a b C4_missing_identity_file [OF a b, of Inr] show ?thesis by blast
qed

end
